theory Spec2Isabelle
  imports Main
begin

section \<open>Library layer: JSON text as encoding/json reads it\<close>

text \<open>
  The provider reads every document with Go's \<^verbatim>\<open>json.Unmarshal\<close>. That call first
  scans the whole input for syntax (nothing is stored on a syntax error) and then
  decodes the value into the target. The scan is modelled by \<open>json_parse\<close>, from
  bytes to a document tree; the decoders per target type follow further down.
  A string is a list of bytes, as Go's \<^verbatim>\<open>[]byte\<close> and \<^verbatim>\<open>string\<close> are.
\<close>

datatype json =
    JNull
  | JBool bool
  | JNum string
  | JStr string
  | JArr "json list"
  | JObj "(string \<times> json) list"

datatype token = TLBrace | TRBrace | TLBrack | TRBrack | TColon | TComma | TAtom json

text \<open>One element of a string literal: a byte of the text, or a \<^verbatim>\<open>\uXXXX\<close> escape.\<close>

datatype sunit = Byte char | U16 nat

datatype lexst =
    Idle
  | InLit string json
  | InNum string
  | InStr "sunit list"
  | InEsc "sunit list"
  | InHex "sunit list" "nat list"

definition is_space :: "char \<Rightarrow> bool" where
  "is_space c = (c = CHR '' '' \<or> c = CHR 0x09 \<or> c = CHR 0x0A \<or> c = CHR 0x0D)"

definition is_digit :: "char \<Rightarrow> bool" where
  "is_digit c = (48 \<le> (of_char c :: nat) \<and> (of_char c :: nat) \<le> 57)"

definition is_numchar :: "char \<Rightarrow> bool" where
  "is_numchar c = (is_digit c \<or> c = CHR ''-'' \<or> c = CHR ''+'' \<or> c = CHR ''.''
     \<or> c = CHR ''e'' \<or> c = CHR ''E'')"

definition hexval :: "char \<Rightarrow> nat option" where
  "hexval c = (let x = (of_char c :: nat) in
     if 48 \<le> x \<and> x \<le> 57 then Some (x - 48)
     else if 97 \<le> x \<and> x \<le> 102 then Some (x - 87)
     else if 65 \<le> x \<and> x \<le> 70 then Some (x - 55)
     else None)"

text \<open>The number grammar of JSON: \<^verbatim>\<open>-?(0|[1-9][0-9]*)(\.[0-9]+)?([eE][+-]?[0-9]+)?\<close>.\<close>

definition num_exp :: "string \<Rightarrow> bool" where
  "num_exp r = (case r of
       [] \<Rightarrow> True
     | e # r1 \<Rightarrow>
         if e = CHR ''e'' \<or> e = CHR ''E'' then
           (let r2 = (case r1 of [] \<Rightarrow> []
                      | s # t \<Rightarrow> if s = CHR ''+'' \<or> s = CHR ''-'' then t else r1)
            in r2 \<noteq> [] \<and> list_all is_digit r2)
         else False)"

definition num_frac :: "string \<Rightarrow> bool" where
  "num_frac r = (case r of
       [] \<Rightarrow> True
     | d # r1 \<Rightarrow>
         if d = CHR ''.'' then
           (case r1 of [] \<Rightarrow> False
            | x # _ \<Rightarrow> is_digit x \<and> num_exp (dropWhile is_digit r1))
         else num_exp r)"

definition valid_number :: "string \<Rightarrow> bool" where
  "valid_number s =
     (let s1 = (case s of [] \<Rightarrow> [] | c # r \<Rightarrow> if c = CHR ''-'' then r else s) in
      case s1 of
        [] \<Rightarrow> False
      | d # r \<Rightarrow>
          if d = CHR ''0'' then num_frac r
          else if is_digit d then num_frac (dropWhile is_digit r)
          else False)"

subsection \<open>String literals: escapes, surrogate pairs, ill-formed UTF-8\<close>

definition utf8_encode :: "nat \<Rightarrow> string" where
  "utf8_encode n =
     (if n < 128 then [char_of n]
      else if n < 2048 then [char_of (192 + n div 64), char_of (128 + n mod 64)]
      else if n < 65536 then
        [char_of (224 + n div 4096), char_of (128 + (n div 64) mod 64), char_of (128 + n mod 64)]
      else
        [char_of (240 + n div 262144), char_of (128 + (n div 4096) mod 64),
         char_of (128 + (n div 64) mod 64), char_of (128 + n mod 64)])"

definition replacement_char :: string where
  "replacement_char = [CHR 0xEF, CHR 0xBF, CHR 0xBD]"

definition is_surrogate :: "nat \<Rightarrow> bool" where
  "is_surrogate n = (55296 \<le> n \<and> n < 57344)"

text \<open>
  A \<^verbatim>\<open>\u\<close> escape in the surrogate range joins with a directly following low
  surrogate escape; alone it becomes U+FFFD (\<^verbatim>\<open>unquoteBytes\<close> of encoding/json).
\<close>

fun units_bytes :: "sunit list \<Rightarrow> string" where
  "units_bytes [] = []"
| "units_bytes (Byte c # us) = c # units_bytes us"
| "units_bytes (U16 h # U16 l # us) =
     (if 55296 \<le> h \<and> h < 56320 \<and> 56320 \<le> l \<and> l < 57344
      then utf8_encode (65536 + (h - 55296) * 1024 + (l - 56320)) @ units_bytes us
      else if is_surrogate h then replacement_char @ units_bytes (U16 l # us)
      else utf8_encode h @ units_bytes (U16 l # us))"
| "units_bytes (U16 h # us) =
     (if is_surrogate h then replacement_char @ units_bytes us
      else utf8_encode h @ units_bytes us)"

definition is_cont :: "char \<Rightarrow> bool" where
  "is_cont c = (128 \<le> (of_char c :: nat) \<and> (of_char c :: nat) \<le> 191)"

definition in_range :: "nat \<Rightarrow> nat \<Rightarrow> char \<Rightarrow> bool" where
  "in_range lo hi c = (lo \<le> (of_char c :: nat) \<and> (of_char c :: nat) \<le> hi)"

text \<open>
  The length of the well-formed UTF-8 sequence at the head of the bytes, 0 when there
  is none (the table of \<^verbatim>\<open>utf8.DecodeRune\<close>).
\<close>

definition utf8_len :: "string \<Rightarrow> nat" where
  "utf8_len s = (case s of
       [] \<Rightarrow> 0
     | a # r \<Rightarrow>
        (let x = (of_char a :: nat) in
         if x < 128 then 1
         else if 194 \<le> x \<and> x \<le> 223 then
           (case r of b # _ \<Rightarrow> if is_cont b then 2 else 0 | _ \<Rightarrow> 0)
         else if 224 \<le> x \<and> x \<le> 239 then
           (case r of
              b # c # _ \<Rightarrow>
                if in_range (if x = 224 then 160 else 128) (if x = 237 then 159 else 191) b
                   \<and> is_cont c then 3 else 0
            | _ \<Rightarrow> 0)
         else if 240 \<le> x \<and> x \<le> 244 then
           (case r of
              b # c # d # _ \<Rightarrow>
                if in_range (if x = 240 then 144 else 128) (if x = 244 then 143 else 191) b
                   \<and> is_cont c \<and> is_cont d then 4 else 0
            | _ \<Rightarrow> 0)
         else 0))"

fun utf8_sanitize :: "string \<Rightarrow> string" where
  "utf8_sanitize [] = []"
| "utf8_sanitize (a # r) =
     (let n = utf8_len (a # r) in
      if n = 0 then replacement_char @ utf8_sanitize r
      else a # take (n - 1) r @ utf8_sanitize (drop (n - 1) r))"

definition unquote :: "sunit list \<Rightarrow> string" where
  "unquote us = utf8_sanitize (units_bytes us)"

subsection \<open>The scanner\<close>

definition step_idle :: "char \<Rightarrow> (token list \<times> lexst) option" where
  "step_idle c =
     (if is_space c then Some ([], Idle)
      else if c = CHR ''{'' then Some ([TLBrace], Idle)
      else if c = CHR ''}'' then Some ([TRBrace], Idle)
      else if c = CHR ''['' then Some ([TLBrack], Idle)
      else if c = CHR '']'' then Some ([TRBrack], Idle)
      else if c = CHR '':'' then Some ([TColon], Idle)
      else if c = CHR '','' then Some ([TComma], Idle)
      else if c = CHR 0x22 then Some ([], InStr [])
      else if c = CHR ''t'' then Some ([], InLit ''rue'' (JBool True))
      else if c = CHR ''f'' then Some ([], InLit ''alse'' (JBool False))
      else if c = CHR ''n'' then Some ([], InLit ''ull'' JNull)
      else if c = CHR ''-'' \<or> is_digit c then Some ([], InNum [c])
      else None)"

fun lex_step :: "lexst \<Rightarrow> char \<Rightarrow> (token list \<times> lexst) option" where
  "lex_step Idle c = step_idle c"
| "lex_step (InLit [] v) c = None"
| "lex_step (InLit (e # es) v) c =
     (if c = e then (if es = [] then Some ([TAtom v], Idle) else Some ([], InLit es v))
      else None)"
| "lex_step (InNum acc) c =
     (if is_numchar c then Some ([], InNum (acc @ [c]))
      else if valid_number acc then
        (case step_idle c of
           None \<Rightarrow> None
         | Some (toks, st) \<Rightarrow> Some (TAtom (JNum acc) # toks, st))
      else None)"
| "lex_step (InStr us) c =
     (if c = CHR 0x22 then Some ([TAtom (JStr (unquote us))], Idle)
      else if c = CHR 0x5C then Some ([], InEsc us)
      else if (of_char c :: nat) < 32 then None
      else Some ([], InStr (us @ [Byte c])))"
| "lex_step (InEsc us) c =
     (if c = CHR 0x22 \<or> c = CHR 0x5C \<or> c = CHR ''/'' then Some ([], InStr (us @ [Byte c]))
      else if c = CHR ''b'' then Some ([], InStr (us @ [Byte (CHR 0x08)]))
      else if c = CHR ''f'' then Some ([], InStr (us @ [Byte (CHR 0x0C)]))
      else if c = CHR ''n'' then Some ([], InStr (us @ [Byte (CHR 0x0A)]))
      else if c = CHR ''r'' then Some ([], InStr (us @ [Byte (CHR 0x0D)]))
      else if c = CHR ''t'' then Some ([], InStr (us @ [Byte (CHR 0x09)]))
      else if c = CHR ''u'' then Some ([], InHex us [])
      else None)"
| "lex_step (InHex us hs) c =
     (case hexval c of
        None \<Rightarrow> None
      | Some h \<Rightarrow>
          if length hs = 3
          then Some ([], InStr (us @ [U16 (foldl (\<lambda>a d. a * 16 + d) 0 (hs @ [h]))]))
          else Some ([], InHex us (hs @ [h])))"

definition lex_finish :: "lexst \<Rightarrow> token list option" where
  "lex_finish st = (case st of
       Idle \<Rightarrow> Some []
     | InNum acc \<Rightarrow> if valid_number acc then Some [TAtom (JNum acc)] else None
     | _ \<Rightarrow> None)"

fun json_lex :: "lexst \<Rightarrow> string \<Rightarrow> token list option" where
  "json_lex st [] = lex_finish st"
| "json_lex st (c # cs) =
     (case lex_step st c of
        None \<Rightarrow> None
      | Some (toks, st') \<Rightarrow>
         (case json_lex st' cs of None \<Rightarrow> None | Some r \<Rightarrow> Some (toks @ r)))"

subsection \<open>The parser\<close>

datatype frame =
    FArr "json list"
  | FObj "(string \<times> json) list"
  | FKey "(string \<times> json) list" string

datatype expect =
    EValue | EValueOrEnd | EKeyOrEnd | EKey | EColon | ECommaOrEnd | EDone json

text \<open>encoding/json refuses input nested deeper than 10000 arrays and objects.\<close>

definition maxNestingDepth :: nat where
  "maxNestingDepth = 10000"

definition push_value :: "json \<Rightarrow> frame list \<Rightarrow> (expect \<times> frame list) option" where
  "push_value v stk = (case stk of
       [] \<Rightarrow> Some (EDone v, [])
     | FArr vs # r \<Rightarrow> Some (ECommaOrEnd, FArr (vs @ [v]) # r)
     | FKey ms k # r \<Rightarrow> Some (ECommaOrEnd, FObj (ms @ [(k, v)]) # r)
     | FObj ms # r \<Rightarrow> None)"

definition push_frame :: "expect \<Rightarrow> frame \<Rightarrow> frame list \<Rightarrow> (expect \<times> frame list) option" where
  "push_frame e f stk = (if length stk < maxNestingDepth then Some (e, f # stk) else None)"

definition begin_value :: "token \<Rightarrow> frame list \<Rightarrow> (expect \<times> frame list) option" where
  "begin_value t stk = (case t of
       TAtom v \<Rightarrow> push_value v stk
     | TLBrack \<Rightarrow> push_frame EValueOrEnd (FArr []) stk
     | TLBrace \<Rightarrow> push_frame EKeyOrEnd (FObj []) stk
     | _ \<Rightarrow> None)"

definition take_key :: "token \<Rightarrow> frame list \<Rightarrow> (expect \<times> frame list) option" where
  "take_key t stk = (case (t, stk) of
       (TAtom (JStr k), FObj ms # r) \<Rightarrow> Some (EColon, FKey ms k # r)
     | _ \<Rightarrow> None)"

definition close_array :: "token \<Rightarrow> frame list \<Rightarrow> (expect \<times> frame list) option" where
  "close_array t stk = (case (t, stk) of
       (TRBrack, FArr vs # r) \<Rightarrow> push_value (JArr vs) r
     | _ \<Rightarrow> None)"

definition close_object :: "token \<Rightarrow> frame list \<Rightarrow> (expect \<times> frame list) option" where
  "close_object t stk = (case (t, stk) of
       (TRBrace, FObj ms # r) \<Rightarrow> push_value (JObj ms) r
     | _ \<Rightarrow> None)"

fun parse_step :: "expect \<Rightarrow> frame list \<Rightarrow> token \<Rightarrow> (expect \<times> frame list) option" where
  "parse_step EValue stk t = begin_value t stk"
| "parse_step EValueOrEnd stk t =
     (if t = TRBrack then close_array t stk else begin_value t stk)"
| "parse_step EKeyOrEnd stk t =
     (if t = TRBrace then close_object t stk else take_key t stk)"
| "parse_step EKey stk t = take_key t stk"
| "parse_step EColon stk t = (if t = TColon then Some (EValue, stk) else None)"
| "parse_step ECommaOrEnd stk t =
     (if t = TComma then
        (case stk of
           FArr vs # r \<Rightarrow> Some (EValue, stk)
         | FObj ms # r \<Rightarrow> Some (EKey, stk)
         | _ \<Rightarrow> None)
      else if t = TRBrack then close_array t stk
      else if t = TRBrace then close_object t stk
      else None)"
| "parse_step (EDone v) stk t = None"

fun parse_tokens :: "expect \<Rightarrow> frame list \<Rightarrow> token list \<Rightarrow> json option" where
  "parse_tokens e stk [] = (case e of EDone v \<Rightarrow> Some v | _ \<Rightarrow> None)"
| "parse_tokens e stk (t # ts) =
     (case parse_step e stk t of
        None \<Rightarrow> None
      | Some (e', stk') \<Rightarrow> parse_tokens e' stk' ts)"

definition json_parse :: "string \<Rightarrow> json option" where
  "json_parse s = (case json_lex Idle s of
       None \<Rightarrow> None
     | Some ts \<Rightarrow> parse_tokens EValue [] ts)"

subsection \<open>Decoding a document into a Go value\<close>

text \<open>
  After the scan, \<^verbatim>\<open>json.Unmarshal\<close> stores the document into the target value. A
  decoder takes the document and the value already held by the target and returns
  the new value, or \<open>None\<close> where Go reports an \<^verbatim>\<open>UnmarshalTypeError\<close> (the callers
  in this repository drop the target on any error, one call apart, which is modelled
  by \<open>dec_strings_partial\<close>). The rules of encoding/json that matter here:
  a member is matched to a field by name, ignoring case; members are stored in the
  order of the text, so a later duplicate is stored over an earlier one; a member
  with no field is skipped; \<^verbatim>\<open>null\<close> leaves a string, number, bool or struct as it
  is and sets a slice to nil; an array is stored element by element into the slice,
  into the elements the slice already has where it has them. Spare capacity that a
  longer, earlier occurrence of the same member left behind is taken as zeroed.
\<close>

datatype json_error = SyntaxError | UnmarshalTypeError

definition upper :: "char \<Rightarrow> char" where
  "upper c = (if 97 \<le> (of_char c :: nat) \<and> (of_char c :: nat) \<le> 122
     then char_of ((of_char c :: nat) - 32) else c)"

text \<open>
  \<^verbatim>\<open>foldName\<close>: ASCII letters to upper case; of the other runes only U+017F and
  U+212A fold to an ASCII letter (S and K).
\<close>

fun fold_name :: "string \<Rightarrow> string" where
  "fold_name [] = []"
| "fold_name [a] = [upper a]"
| "fold_name [a, b] =
     (if a = CHR 0xC5 \<and> b = CHR 0xBF then ''S'' else upper a # fold_name [b])"
| "fold_name (a # b # c # r) =
     (if a = CHR 0xC5 \<and> b = CHR 0xBF then CHR ''S'' # fold_name (c # r)
      else if a = CHR 0xE2 \<and> b = CHR 0x84 \<and> c = CHR 0xAA then CHR ''K'' # fold_name r
      else upper a # fold_name (b # c # r))"

definition name_is :: "string \<Rightarrow> string \<Rightarrow> bool" where
  "name_is k field = (fold_name k = fold_name field)"

definition dec_string :: "json \<Rightarrow> string \<Rightarrow> string option" where
  "dec_string j old = (case j of JStr s \<Rightarrow> Some s | JNull \<Rightarrow> Some old | _ \<Rightarrow> None)"

definition dec_bool :: "json \<Rightarrow> bool \<Rightarrow> bool option" where
  "dec_bool j old = (case j of JBool b \<Rightarrow> Some b | JNull \<Rightarrow> Some old | _ \<Rightarrow> None)"

definition digits_value :: "string \<Rightarrow> int" where
  "digits_value ds = foldl (\<lambda>a d. a * 10 + (of_char d - 48)) 0 ds"

definition int_literal :: "string \<Rightarrow> int option" where
  "int_literal s = (case s of
       [] \<Rightarrow> None
     | c # r \<Rightarrow>
         if c = CHR ''-'' then
           (if r \<noteq> [] \<and> list_all is_digit r then Some (- digits_value r) else None)
         else if list_all is_digit s then Some (digits_value s)
         else None)"

text \<open>A Go \<^verbatim>\<open>int\<close> (64 bits): \<^verbatim>\<open>strconv.ParseInt\<close> of the literal, in range.\<close>

definition dec_int :: "json \<Rightarrow> int \<Rightarrow> int option" where
  "dec_int j old = (case j of
       JNum s \<Rightarrow>
         (case int_literal s of
            None \<Rightarrow> None
          | Some n \<Rightarrow> if - (2 ^ 63) \<le> n \<and> n < 2 ^ 63 then Some n else None)
     | JNull \<Rightarrow> Some old
     | _ \<Rightarrow> None)"

fun dec_members ::
  "(string \<Rightarrow> json \<Rightarrow> 'a \<Rightarrow> 'a option) \<Rightarrow> (string \<times> json) list \<Rightarrow> 'a \<Rightarrow> 'a option" where
  "dec_members f [] x = Some x"
| "dec_members f ((k, v) # ms) x =
     (case f k v x of None \<Rightarrow> None | Some x' \<Rightarrow> dec_members f ms x')"

definition dec_object ::
  "(string \<Rightarrow> json \<Rightarrow> 'a \<Rightarrow> 'a option) \<Rightarrow> json \<Rightarrow> 'a \<Rightarrow> 'a option" where
  "dec_object f j x = (case j of
       JObj ms \<Rightarrow> dec_members f ms x
     | JNull \<Rightarrow> Some x
     | _ \<Rightarrow> None)"

fun dec_elems ::
  "(json \<Rightarrow> 'a \<Rightarrow> 'a option) \<Rightarrow> 'a \<Rightarrow> json list \<Rightarrow> 'a list \<Rightarrow> 'a list option" where
  "dec_elems d z [] old = Some []"
| "dec_elems d z (x # xs) old =
     (case d x (case old of [] \<Rightarrow> z | o1 # _ \<Rightarrow> o1) of
        None \<Rightarrow> None
      | Some y \<Rightarrow>
         (case dec_elems d z xs (tl old) of
            None \<Rightarrow> None
          | Some ys \<Rightarrow> Some (y # ys)))"

definition dec_slice ::
  "(json \<Rightarrow> 'a \<Rightarrow> 'a option) \<Rightarrow> 'a \<Rightarrow> json \<Rightarrow> 'a list \<Rightarrow> 'a list option" where
  "dec_slice d z j old = (case j of
       JArr xs \<Rightarrow> dec_elems d z xs old
     | JNull \<Rightarrow> Some []
     | _ \<Rightarrow> None)"

text \<open>
  \<^verbatim>\<open>json.Unmarshal(data, &v)\<close> for a target \<open>v\<close> that holds \<open>z\<close>: a syntax error
  before anything is stored, else the decoder's result.
\<close>

definition unmarshal ::
  "(json \<Rightarrow> 'a \<Rightarrow> 'a option) \<Rightarrow> 'a \<Rightarrow> string \<Rightarrow> json_error + 'a" where
  "unmarshal d z bs = (case json_parse bs of
       None \<Rightarrow> Inl SyntaxError
     | Some j \<Rightarrow> (case d j z of None \<Rightarrow> Inl UnmarshalTypeError | Some v \<Rightarrow> Inr v))"

text \<open>
  The one call whose target is used after an error: a \<^verbatim>\<open>[]string\<close> that starts nil.
  An element that is not a string is reported and left empty, and the elements
  after it are still stored.
\<close>

definition string_elem :: "json \<Rightarrow> string" where
  "string_elem j = (case j of JStr s \<Rightarrow> s | _ \<Rightarrow> [])"

definition string_elem_ok :: "json \<Rightarrow> bool" where
  "string_elem_ok j = (case j of JStr s \<Rightarrow> True | JNull \<Rightarrow> True | _ \<Rightarrow> False)"

definition dec_strings_partial :: "json \<Rightarrow> string list \<times> json_error option" where
  "dec_strings_partial j = (case j of
       JArr xs \<Rightarrow>
         (map string_elem xs,
          if list_all string_elem_ok xs then None else Some UnmarshalTypeError)
     | JNull \<Rightarrow> ([], None)
     | _ \<Rightarrow> ([], Some UnmarshalTypeError))"

definition unmarshal_strings :: "string \<Rightarrow> string list \<times> json_error option" where
  "unmarshal_strings bs = (case json_parse bs of
       None \<Rightarrow> ([], Some SyntaxError)
     | Some j \<Rightarrow> dec_strings_partial j)"

section \<open>Library layer: base64.StdEncoding.DecodeString\<close>

definition b64val :: "char \<Rightarrow> nat option" where
  "b64val c = (let x = (of_char c :: nat) in
     if 65 \<le> x \<and> x \<le> 90 then Some (x - 65)
     else if 97 \<le> x \<and> x \<le> 122 then Some (x - 71)
     else if 48 \<le> x \<and> x \<le> 57 then Some (x + 4)
     else if c = CHR ''+'' then Some 62
     else if c = CHR ''/'' then Some 63
     else None)"

definition quantum :: "char \<Rightarrow> char \<Rightarrow> char \<Rightarrow> char \<Rightarrow> string option" where
  "quantum a b c d = (case (b64val a, b64val b, b64val c, b64val d) of
       (Some x, Some y, Some z, Some w) \<Rightarrow>
         Some [char_of (x * 4 + y div 16), char_of (y * 16 + z div 4), char_of (z * 64 + w)]
     | _ \<Rightarrow> None)"

text \<open>The last four characters may be padded: \<^verbatim>\<open>xx==\<close> is one byte, \<^verbatim>\<open>xxx=\<close> two.\<close>

definition last_quantum :: "char \<Rightarrow> char \<Rightarrow> char \<Rightarrow> char \<Rightarrow> string option" where
  "last_quantum a b c d =
     (if c = CHR ''='' \<and> d = CHR ''='' then
        (case (b64val a, b64val b) of
           (Some x, Some y) \<Rightarrow> Some [char_of (x * 4 + y div 16)]
         | _ \<Rightarrow> None)
      else if d = CHR ''='' then
        (case (b64val a, b64val b, b64val c) of
           (Some x, Some y, Some z) \<Rightarrow>
             Some [char_of (x * 4 + y div 16), char_of (y * 16 + z div 4)]
         | _ \<Rightarrow> None)
      else quantum a b c d)"

fun b64_quanta :: "string \<Rightarrow> string option" where
  "b64_quanta [] = Some []"
| "b64_quanta [a, b, c, d] = last_quantum a b c d"
| "b64_quanta (a # b # c # d # r) =
     (case quantum a b c d of
        None \<Rightarrow> None
      | Some x \<Rightarrow> (case b64_quanta r of None \<Rightarrow> None | Some y \<Rightarrow> Some (x @ y)))"
| "b64_quanta _ = None"

text \<open>Carriage returns and line feeds are ignored wherever they stand.\<close>

definition base64_DecodeString :: "string \<Rightarrow> string option" where
  "base64_DecodeString s = b64_quanta (filter (\<lambda>c. c \<noteq> CHR 0x0D \<and> c \<noteq> CHR 0x0A) s)"

text \<open>
  A \<^verbatim>\<open>json.RawMessage\<close> holds the text of one value of a document that has been
  scanned already, or nothing when the member was absent. It is represented by the
  tree of that value; \<^verbatim>\<open>json.Unmarshal\<close> of an empty message is a syntax error
  (unexpected end of input). For bytes \<open>bs\<close>, \<open>json_parse bs\<close> is the message they hold.
\<close>

type_synonym RawMessage = "json option"

definition unmarshal_raw ::
  "(json \<Rightarrow> 'a \<Rightarrow> 'a option) \<Rightarrow> 'a \<Rightarrow> RawMessage \<Rightarrow> json_error + 'a" where
  "unmarshal_raw d z raw = (case raw of
       None \<Rightarrow> Inl SyntaxError
     | Some j \<Rightarrow> (case d j z of None \<Rightarrow> Inl UnmarshalTypeError | Some v \<Rightarrow> Inr v))"

section \<open>The provider's types (types.go)\<close>

text \<open>
  Each Go struct is a record. A field keeps its Go name behind a short tag of its
  struct, since several structs share field names (\<^verbatim>\<open>Name\<close>, \<^verbatim>\<open>Version\<close>, \<^verbatim>\<open>Packages\<close>).
\<close>

record Request =
  req_Keys :: "string list"

record ProviderRequest =
  preq_APIVersion :: string
  preq_Kind :: string
  preq_Request :: Request

record Item =
  item_Key :: string
  item_Value :: string
  item_Error :: string

record Response =
  resp_Items :: "Item list"
  resp_SystemError :: string

record ProviderResponse =
  presp_APIVersion :: string
  presp_Kind :: string
  presp_Response :: Response

record UnifiedPackage =
  up_Name :: string
  up_Version :: string
  up_License :: string
  up_PURL :: string

record UnifiedSBOM =
  sbom_Format :: string
  sbom_Packages :: "UnifiedPackage list"

record ExtRef =
  ref_ReferenceCategory :: string
  ref_ReferenceType :: string
  ref_ReferenceLocator :: string

record CreationInfo =
  ci_Created :: string
  ci_Creators :: "string list"

record SPDXPackage =
  pkg_SPDXID :: string
  pkg_Name :: string
  pkg_VersionInfo :: string
  pkg_Supplier :: string
  pkg_DownloadLocation :: string
  pkg_FilesAnalyzed :: bool
  pkg_LicenseConcluded :: string
  pkg_LicenseDeclared :: string
  pkg_CopyrightText :: string
  pkg_ExternalRefs :: "ExtRef list"

record SPDXDocument =
  doc_SPDXID :: string
  doc_SPDXVersion :: string
  doc_CreationInfo :: CreationInfo
  doc_Name :: string
  doc_DataLicense :: string
  doc_DocumentNamespace :: string
  doc_Packages :: "SPDXPackage list"

record CycloneDXMetadata =
  meta_Timestamp :: string

record CycloneDXLicenseInfo =
  li_ID :: string
  li_Name :: string

record CycloneDXLicense =
  lic_License :: CycloneDXLicenseInfo

record CycloneDXHash =
  hash_Alg :: string
  hash_Content :: string

record CycloneDXComponent =
  comp_Type :: string
  comp_Name :: string
  comp_Version :: string
  comp_Purl :: string
  comp_Licenses :: "CycloneDXLicense list"
  comp_Hashes :: "CycloneDXHash list"

record CycloneDXBOM =
  bom_BOMFormat :: string
  bom_SpecVersion :: string
  bom_Version :: int
  bom_Metadata :: CycloneDXMetadata
  bom_Components :: "CycloneDXComponent list"

text \<open>The two structs that \<^verbatim>\<open>extractSBOMFromAttestation\<close> declares in its body.\<close>

record Envelope =
  dsse_Payload :: string
  dsse_PayloadType :: string
  dsse_Signatures :: "json list"

record Statement =
  st_Type :: string
  st_PredicateType :: string
  st_Predicate :: RawMessage

subsection \<open>Zero values\<close>

definition zero_Request :: Request where
  "zero_Request = \<lparr>req_Keys = []\<rparr>"

definition zero_ProviderRequest :: ProviderRequest where
  "zero_ProviderRequest = \<lparr>preq_APIVersion = [], preq_Kind = [], preq_Request = zero_Request\<rparr>"

definition zero_ExtRef :: ExtRef where
  "zero_ExtRef = \<lparr>ref_ReferenceCategory = [], ref_ReferenceType = [], ref_ReferenceLocator = []\<rparr>"

definition zero_CreationInfo :: CreationInfo where
  "zero_CreationInfo = \<lparr>ci_Created = [], ci_Creators = []\<rparr>"

definition zero_SPDXPackage :: SPDXPackage where
  "zero_SPDXPackage = \<lparr>pkg_SPDXID = [], pkg_Name = [], pkg_VersionInfo = [], pkg_Supplier = [],
     pkg_DownloadLocation = [], pkg_FilesAnalyzed = False, pkg_LicenseConcluded = [],
     pkg_LicenseDeclared = [], pkg_CopyrightText = [], pkg_ExternalRefs = []\<rparr>"

definition zero_SPDXDocument :: SPDXDocument where
  "zero_SPDXDocument = \<lparr>doc_SPDXID = [], doc_SPDXVersion = [], doc_CreationInfo = zero_CreationInfo,
     doc_Name = [], doc_DataLicense = [], doc_DocumentNamespace = [], doc_Packages = []\<rparr>"

definition zero_CycloneDXMetadata :: CycloneDXMetadata where
  "zero_CycloneDXMetadata = \<lparr>meta_Timestamp = []\<rparr>"

definition zero_CycloneDXLicenseInfo :: CycloneDXLicenseInfo where
  "zero_CycloneDXLicenseInfo = \<lparr>li_ID = [], li_Name = []\<rparr>"

definition zero_CycloneDXLicense :: CycloneDXLicense where
  "zero_CycloneDXLicense = \<lparr>lic_License = zero_CycloneDXLicenseInfo\<rparr>"

definition zero_CycloneDXHash :: CycloneDXHash where
  "zero_CycloneDXHash = \<lparr>hash_Alg = [], hash_Content = []\<rparr>"

definition zero_CycloneDXComponent :: CycloneDXComponent where
  "zero_CycloneDXComponent = \<lparr>comp_Type = [], comp_Name = [], comp_Version = [], comp_Purl = [],
     comp_Licenses = [], comp_Hashes = []\<rparr>"

definition zero_CycloneDXBOM :: CycloneDXBOM where
  "zero_CycloneDXBOM = \<lparr>bom_BOMFormat = [], bom_SpecVersion = [], bom_Version = 0,
     bom_Metadata = zero_CycloneDXMetadata, bom_Components = []\<rparr>"

definition zero_Envelope :: Envelope where
  "zero_Envelope = \<lparr>dsse_Payload = [], dsse_PayloadType = [], dsse_Signatures = []\<rparr>"

definition zero_Statement :: Statement where
  "zero_Statement = \<lparr>st_Type = [], st_PredicateType = [], st_Predicate = None\<rparr>"

subsection \<open>Decoders, from the json tags of the fields\<close>

definition Request_field :: "string \<Rightarrow> json \<Rightarrow> Request \<Rightarrow> Request option" where
  "Request_field k v r =
     (if name_is k ''keys''
      then map_option (\<lambda>x. r\<lparr>req_Keys := x\<rparr>) (dec_slice dec_string [] v (req_Keys r))
      else Some r)"

definition ProviderRequest_field ::
  "string \<Rightarrow> json \<Rightarrow> ProviderRequest \<Rightarrow> ProviderRequest option" where
  "ProviderRequest_field k v r =
     (if name_is k ''apiVersion''
      then map_option (\<lambda>x. r\<lparr>preq_APIVersion := x\<rparr>) (dec_string v (preq_APIVersion r))
      else if name_is k ''kind''
      then map_option (\<lambda>x. r\<lparr>preq_Kind := x\<rparr>) (dec_string v (preq_Kind r))
      else if name_is k ''request''
      then map_option (\<lambda>x. r\<lparr>preq_Request := x\<rparr>) (dec_object Request_field v (preq_Request r))
      else Some r)"

definition ExtRef_field :: "string \<Rightarrow> json \<Rightarrow> ExtRef \<Rightarrow> ExtRef option" where
  "ExtRef_field k v r =
     (if name_is k ''referenceCategory''
      then map_option (\<lambda>x. r\<lparr>ref_ReferenceCategory := x\<rparr>) (dec_string v (ref_ReferenceCategory r))
      else if name_is k ''referenceType''
      then map_option (\<lambda>x. r\<lparr>ref_ReferenceType := x\<rparr>) (dec_string v (ref_ReferenceType r))
      else if name_is k ''referenceLocator''
      then map_option (\<lambda>x. r\<lparr>ref_ReferenceLocator := x\<rparr>) (dec_string v (ref_ReferenceLocator r))
      else Some r)"

definition CreationInfo_field :: "string \<Rightarrow> json \<Rightarrow> CreationInfo \<Rightarrow> CreationInfo option" where
  "CreationInfo_field k v r =
     (if name_is k ''created''
      then map_option (\<lambda>x. r\<lparr>ci_Created := x\<rparr>) (dec_string v (ci_Created r))
      else if name_is k ''creators''
      then map_option (\<lambda>x. r\<lparr>ci_Creators := x\<rparr>) (dec_slice dec_string [] v (ci_Creators r))
      else Some r)"

definition SPDXPackage_field :: "string \<Rightarrow> json \<Rightarrow> SPDXPackage \<Rightarrow> SPDXPackage option" where
  "SPDXPackage_field k v r =
     (if name_is k ''SPDXID''
      then map_option (\<lambda>x. r\<lparr>pkg_SPDXID := x\<rparr>) (dec_string v (pkg_SPDXID r))
      else if name_is k ''name''
      then map_option (\<lambda>x. r\<lparr>pkg_Name := x\<rparr>) (dec_string v (pkg_Name r))
      else if name_is k ''versionInfo''
      then map_option (\<lambda>x. r\<lparr>pkg_VersionInfo := x\<rparr>) (dec_string v (pkg_VersionInfo r))
      else if name_is k ''supplier''
      then map_option (\<lambda>x. r\<lparr>pkg_Supplier := x\<rparr>) (dec_string v (pkg_Supplier r))
      else if name_is k ''downloadLocation''
      then map_option (\<lambda>x. r\<lparr>pkg_DownloadLocation := x\<rparr>) (dec_string v (pkg_DownloadLocation r))
      else if name_is k ''filesAnalyzed''
      then map_option (\<lambda>x. r\<lparr>pkg_FilesAnalyzed := x\<rparr>) (dec_bool v (pkg_FilesAnalyzed r))
      else if name_is k ''licenseConcluded''
      then map_option (\<lambda>x. r\<lparr>pkg_LicenseConcluded := x\<rparr>) (dec_string v (pkg_LicenseConcluded r))
      else if name_is k ''licenseDeclared''
      then map_option (\<lambda>x. r\<lparr>pkg_LicenseDeclared := x\<rparr>) (dec_string v (pkg_LicenseDeclared r))
      else if name_is k ''copyrightText''
      then map_option (\<lambda>x. r\<lparr>pkg_CopyrightText := x\<rparr>) (dec_string v (pkg_CopyrightText r))
      else if name_is k ''externalRefs''
      then map_option (\<lambda>x. r\<lparr>pkg_ExternalRefs := x\<rparr>)
             (dec_slice (dec_object ExtRef_field) zero_ExtRef v (pkg_ExternalRefs r))
      else Some r)"

definition SPDXDocument_field :: "string \<Rightarrow> json \<Rightarrow> SPDXDocument \<Rightarrow> SPDXDocument option" where
  "SPDXDocument_field k v r =
     (if name_is k ''SPDXID''
      then map_option (\<lambda>x. r\<lparr>doc_SPDXID := x\<rparr>) (dec_string v (doc_SPDXID r))
      else if name_is k ''spdxVersion''
      then map_option (\<lambda>x. r\<lparr>doc_SPDXVersion := x\<rparr>) (dec_string v (doc_SPDXVersion r))
      else if name_is k ''creationInfo''
      then map_option (\<lambda>x. r\<lparr>doc_CreationInfo := x\<rparr>)
             (dec_object CreationInfo_field v (doc_CreationInfo r))
      else if name_is k ''name''
      then map_option (\<lambda>x. r\<lparr>doc_Name := x\<rparr>) (dec_string v (doc_Name r))
      else if name_is k ''dataLicense''
      then map_option (\<lambda>x. r\<lparr>doc_DataLicense := x\<rparr>) (dec_string v (doc_DataLicense r))
      else if name_is k ''documentNamespace''
      then map_option (\<lambda>x. r\<lparr>doc_DocumentNamespace := x\<rparr>) (dec_string v (doc_DocumentNamespace r))
      else if name_is k ''packages''
      then map_option (\<lambda>x. r\<lparr>doc_Packages := x\<rparr>)
             (dec_slice (dec_object SPDXPackage_field) zero_SPDXPackage v (doc_Packages r))
      else Some r)"

definition CycloneDXMetadata_field ::
  "string \<Rightarrow> json \<Rightarrow> CycloneDXMetadata \<Rightarrow> CycloneDXMetadata option" where
  "CycloneDXMetadata_field k v r =
     (if name_is k ''timestamp''
      then map_option (\<lambda>x. r\<lparr>meta_Timestamp := x\<rparr>) (dec_string v (meta_Timestamp r))
      else Some r)"

definition CycloneDXLicenseInfo_field ::
  "string \<Rightarrow> json \<Rightarrow> CycloneDXLicenseInfo \<Rightarrow> CycloneDXLicenseInfo option" where
  "CycloneDXLicenseInfo_field k v r =
     (if name_is k ''id''
      then map_option (\<lambda>x. r\<lparr>li_ID := x\<rparr>) (dec_string v (li_ID r))
      else if name_is k ''name''
      then map_option (\<lambda>x. r\<lparr>li_Name := x\<rparr>) (dec_string v (li_Name r))
      else Some r)"

definition CycloneDXLicense_field ::
  "string \<Rightarrow> json \<Rightarrow> CycloneDXLicense \<Rightarrow> CycloneDXLicense option" where
  "CycloneDXLicense_field k v r =
     (if name_is k ''license''
      then map_option (\<lambda>x. r\<lparr>lic_License := x\<rparr>)
             (dec_object CycloneDXLicenseInfo_field v (lic_License r))
      else Some r)"

definition CycloneDXHash_field :: "string \<Rightarrow> json \<Rightarrow> CycloneDXHash \<Rightarrow> CycloneDXHash option" where
  "CycloneDXHash_field k v r =
     (if name_is k ''alg''
      then map_option (\<lambda>x. r\<lparr>hash_Alg := x\<rparr>) (dec_string v (hash_Alg r))
      else if name_is k ''content''
      then map_option (\<lambda>x. r\<lparr>hash_Content := x\<rparr>) (dec_string v (hash_Content r))
      else Some r)"

definition CycloneDXComponent_field ::
  "string \<Rightarrow> json \<Rightarrow> CycloneDXComponent \<Rightarrow> CycloneDXComponent option" where
  "CycloneDXComponent_field k v r =
     (if name_is k ''type''
      then map_option (\<lambda>x. r\<lparr>comp_Type := x\<rparr>) (dec_string v (comp_Type r))
      else if name_is k ''name''
      then map_option (\<lambda>x. r\<lparr>comp_Name := x\<rparr>) (dec_string v (comp_Name r))
      else if name_is k ''version''
      then map_option (\<lambda>x. r\<lparr>comp_Version := x\<rparr>) (dec_string v (comp_Version r))
      else if name_is k ''purl''
      then map_option (\<lambda>x. r\<lparr>comp_Purl := x\<rparr>) (dec_string v (comp_Purl r))
      else if name_is k ''licenses''
      then map_option (\<lambda>x. r\<lparr>comp_Licenses := x\<rparr>)
             (dec_slice (dec_object CycloneDXLicense_field) zero_CycloneDXLicense v (comp_Licenses r))
      else if name_is k ''hashes''
      then map_option (\<lambda>x. r\<lparr>comp_Hashes := x\<rparr>)
             (dec_slice (dec_object CycloneDXHash_field) zero_CycloneDXHash v (comp_Hashes r))
      else Some r)"

definition CycloneDXBOM_field :: "string \<Rightarrow> json \<Rightarrow> CycloneDXBOM \<Rightarrow> CycloneDXBOM option" where
  "CycloneDXBOM_field k v r =
     (if name_is k ''bomFormat''
      then map_option (\<lambda>x. r\<lparr>bom_BOMFormat := x\<rparr>) (dec_string v (bom_BOMFormat r))
      else if name_is k ''specVersion''
      then map_option (\<lambda>x. r\<lparr>bom_SpecVersion := x\<rparr>) (dec_string v (bom_SpecVersion r))
      else if name_is k ''version''
      then map_option (\<lambda>x. r\<lparr>bom_Version := x\<rparr>) (dec_int v (bom_Version r))
      else if name_is k ''metadata''
      then map_option (\<lambda>x. r\<lparr>bom_Metadata := x\<rparr>)
             (dec_object CycloneDXMetadata_field v (bom_Metadata r))
      else if name_is k ''components''
      then map_option (\<lambda>x. r\<lparr>bom_Components := x\<rparr>)
             (dec_slice (dec_object CycloneDXComponent_field) zero_CycloneDXComponent v
                (bom_Components r))
      else Some r)"

text \<open>
  \<^verbatim>\<open>Signatures []interface{}\<close> takes any array; \<^verbatim>\<open>Predicate json.RawMessage\<close> takes
  any value, \<^verbatim>\<open>null\<close> too, as it stands.
\<close>

definition dec_any_slice :: "json \<Rightarrow> json list \<Rightarrow> json list option" where
  "dec_any_slice j old = (case j of JArr xs \<Rightarrow> Some xs | JNull \<Rightarrow> Some [] | _ \<Rightarrow> None)"

definition Envelope_field :: "string \<Rightarrow> json \<Rightarrow> Envelope \<Rightarrow> Envelope option" where
  "Envelope_field k v r =
     (if name_is k ''payload''
      then map_option (\<lambda>x. r\<lparr>dsse_Payload := x\<rparr>) (dec_string v (dsse_Payload r))
      else if name_is k ''payloadType''
      then map_option (\<lambda>x. r\<lparr>dsse_PayloadType := x\<rparr>) (dec_string v (dsse_PayloadType r))
      else if name_is k ''signatures''
      then map_option (\<lambda>x. r\<lparr>dsse_Signatures := x\<rparr>) (dec_any_slice v (dsse_Signatures r))
      else Some r)"

definition Statement_field :: "string \<Rightarrow> json \<Rightarrow> Statement \<Rightarrow> Statement option" where
  "Statement_field k v r =
     (if name_is k ''_type''
      then map_option (\<lambda>x. r\<lparr>st_Type := x\<rparr>) (dec_string v (st_Type r))
      else if name_is k ''predicateType''
      then map_option (\<lambda>x. r\<lparr>st_PredicateType := x\<rparr>) (dec_string v (st_PredicateType r))
      else if name_is k ''predicate''
      then Some (r\<lparr>st_Predicate := Some v\<rparr>)
      else Some r)"

section \<open>Library layer: json.Marshal\<close>

text \<open>
  \<^verbatim>\<open>appendString\<close> of encoding/json (Go 1.22 and later) with HTML escaping on, as
  \<^verbatim>\<open>json.Marshal\<close> has it: quotes and backslashes are escaped, control characters,
  \<^verbatim>\<open><\<close>, \<^verbatim>\<open>>\<close> and \<^verbatim>\<open>&\<close> are written \<^verbatim>\<open>\u00XX\<close>, ill-formed UTF-8 becomes
  the escape of U+FFFD, and U+2028 and U+2029 are escaped.
\<close>

definition hexdigit :: "nat \<Rightarrow> char" where
  "hexdigit n = (if n < 10 then char_of (48 + n) else char_of (87 + n))"

definition escape_ascii :: "char \<Rightarrow> string" where
  "escape_ascii a =
     (if a = CHR 0x22 then [CHR 0x5C, CHR 0x22]
      else if a = CHR 0x5C then [CHR 0x5C, CHR 0x5C]
      else if a = CHR 0x08 then [CHR 0x5C, CHR ''b'']
      else if a = CHR 0x0C then [CHR 0x5C, CHR ''f'']
      else if a = CHR 0x0A then [CHR 0x5C, CHR ''n'']
      else if a = CHR 0x0D then [CHR 0x5C, CHR ''r'']
      else if a = CHR 0x09 then [CHR 0x5C, CHR ''t'']
      else if (of_char a :: nat) < 32 \<or> a = CHR ''<'' \<or> a = CHR ''>'' \<or> a = CHR ''&''
      then [CHR 0x5C, CHR ''u'', CHR ''0'', CHR ''0'',
            hexdigit ((of_char a :: nat) div 16), hexdigit ((of_char a :: nat) mod 16)]
      else [a])"

fun escape_bytes :: "string \<Rightarrow> string" where
  "escape_bytes [] = []"
| "escape_bytes (a # r) =
     (if (of_char a :: nat) < 128 then escape_ascii a @ escape_bytes r
      else
        (let n = utf8_len (a # r) in
         if n = 0 then [CHR 0x5C] @ ''ufffd'' @ escape_bytes r
         else if take 3 (a # r) = [CHR 0xE2, CHR 0x80, CHR 0xA8]
         then [CHR 0x5C] @ ''u2028'' @ escape_bytes (drop 2 r)
         else if take 3 (a # r) = [CHR 0xE2, CHR 0x80, CHR 0xA9]
         then [CHR 0x5C] @ ''u2029'' @ escape_bytes (drop 2 r)
         else a # take (n - 1) r @ escape_bytes (drop (n - 1) r)))"

definition encode_string :: "string \<Rightarrow> string" where
  "encode_string s = [CHR 0x22] @ escape_bytes s @ [CHR 0x22]"

fun join_commas :: "string list \<Rightarrow> string" where
  "join_commas [] = []"
| "join_commas [x] = x"
| "join_commas (x # y # r) = x @ '','' @ join_commas (y # r)"

fun json_encode :: "json \<Rightarrow> string" where
  "json_encode JNull = ''null''"
| "json_encode (JBool b) = (if b then ''true'' else ''false'')"
| "json_encode (JNum s) = s"
| "json_encode (JStr s) = encode_string s"
| "json_encode (JArr xs) = ''['' @ join_commas (map json_encode xs) @ '']''"
| "json_encode (JObj ms) =
     ''{'' @ join_commas (map (\<lambda>m. encode_string (fst m) @ '':'' @ json_encode (snd m)) ms) @ ''}''"

section \<open>Library layer: strings.SplitN and strings.Split on one separator byte\<close>

fun cut :: "char \<Rightarrow> string \<Rightarrow> (string \<times> string) option" where
  "cut sep [] = None"
| "cut sep (c # cs) =
     (if c = sep then Some ([], cs)
      else (case cut sep cs of None \<Rightarrow> None | Some (a, b) \<Rightarrow> Some (c # a, b)))"

text \<open>\<^verbatim>\<open>strings.SplitN(s, sep, n)\<close> for \<open>n \<ge> 0\<close>: at most \<open>n\<close> pieces, the last one unsplit.\<close>

fun SplitN :: "char \<Rightarrow> nat \<Rightarrow> string \<Rightarrow> string list" where
  "SplitN sep 0 s = []"
| "SplitN sep (Suc 0) s = [s]"
| "SplitN sep (Suc (Suc n)) s =
     (case cut sep s of
        None \<Rightarrow> [s]
      | Some (a, b) \<Rightarrow> a # SplitN sep (Suc n) b)"

fun Split :: "char \<Rightarrow> string \<Rightarrow> string list" where
  "Split sep [] = [[]]"
| "Split sep (c # cs) =
     (if c = sep then [] # Split sep cs
      else (case Split sep cs of [] \<Rightarrow> [[c]] | x # xs \<Rightarrow> (c # x) # xs))"

section \<open>The outside world\<close>

text \<open>
  What the provider calls outside its process is a parameter of the model: the
  cluster API, the registry and cosign. A call returns the library's error (its text)
  on the left or its value on the right. A context and its deadline are not modelled:
  a call that times out is a call that returns an error. A call is a function of its
  arguments, so the same question asked twice has the same answer; one run asks cosign
  twice at most, and with different options.
\<close>

datatype Secret = Secret string string

datatype Keychain =
    DefaultKeychain
  | InClusterKeychain
  | PullSecretsKeychain "Secret list"
  | MultiKeychain "Keychain list"

datatype RestConfig = RestConfig string

datatype Clientset = Clientset RestConfig

datatype Reference = Reference string

datatype TrustedRoot = TrustedRoot string

datatype ClaimVerifier = IntotoSubjectClaimVerifier

text \<open>An attestation (\<^verbatim>\<open>oci.Signature\<close>) is what its \<^verbatim>\<open>Payload()\<close> method returns.\<close>

datatype Attestation = Attestation "string + string"

fun Payload :: "Attestation \<Rightarrow> string + string" where
  "Payload (Attestation r) = r"

text \<open>
  \<^verbatim>\<open>cosign.CheckOpts\<close>, the fields that \<^verbatim>\<open>VerifyAndExtractSBOMWithParams\<close> sets to something
  other than nil. An identity is the pair of \<^verbatim>\<open>Issuer\<close> and \<^verbatim>\<open>Subject\<close>.
\<close>

record CheckOpts =
  RegistryClientOpts :: Keychain
  ClaimVerifier :: ClaimVerifier
  IgnoreTlog :: bool
  IgnoreSCT :: bool
  ExperimentalOCI11 :: bool
  NewBundleFormat :: bool
  Identities :: "(string \<times> string) list"
  TrustedMaterial :: TrustedRoot

record world =
  rest_InClusterConfig :: "string + RestConfig"
  kubernetes_NewForConfig :: "RestConfig \<Rightarrow> string + Clientset"
  os_Getenv :: "string \<Rightarrow> string"
  Secrets_Get :: "Clientset \<Rightarrow> string \<Rightarrow> string \<Rightarrow> string + Secret"
  k8schain_NewFromPullSecrets :: "Secret list \<Rightarrow> string + Keychain"
  name_ParseReference :: "string \<Rightarrow> string + Reference"
  cosign_VerifyImageAttestations :: "Reference \<Rightarrow> CheckOpts \<Rightarrow> string + Attestation list"

text \<open>
  A run returns, with its result, what it did in order: the lines it logged and the
  calls it made to cosign and to the attestations.
\<close>

datatype event =
    LogSecretsParseWarning json_error
  | LogVerifying string nat string string
  | LogKeychainWarning string
  | LogSecretWarning string string
  | LogSuccess string nat
  | LogReceived nat
  | LogErrorFor string string
  | LogProcessed nat nat int
  | LogBodyError string
  | LogRequestError json_error
  | Call_VerifyImageAttestations Reference CheckOpts
  | Call_Payload Attestation

section \<open>verifier.go\<close>

record AttestationVerifier =
  useReferrers :: bool
  keychain :: Keychain
  trustedRoot :: TrustedRoot

datatype extract_error =
    DecodeDSSEFailed
  | ParseStatementFailed json_error
  | ParseSPDXFailed json_error
  | ParseCycloneDXFailed json_error

datatype verify_error =
    ParseReferenceFailed string
  | FetchVerifyFailed string
  | NoAttestationsFound
  | NoSBOMFound

text \<open>The text of the error, as \<^verbatim>\<open>fmt.Errorf\<close> builds it.\<close>

fun error_text :: "verify_error \<Rightarrow> string" where
  "error_text (ParseReferenceFailed e) = ''failed to parse image reference: '' @ e"
| "error_text (FetchVerifyFailed e) = ''failed to fetch/verify attestations: '' @ e"
| "error_text NoAttestationsFound = ''no attestations found''"
| "error_text NoSBOMFound = ''no SBOM found in attestations''"

subsection \<open>extractAndNormalizeSPDX and extractAndNormalizeCycloneDX\<close>

text \<open>The body of the loop over \<^verbatim>\<open>sbom.Packages\<close> (verifier.go:270-281).\<close>

definition spdx_package :: "SPDXPackage \<Rightarrow> UnifiedPackage" where
  "spdx_package pkg =
     (let license = pkg_LicenseConcluded pkg;
          license = (if license = [] then pkg_LicenseDeclared pkg else license)
      in \<lparr>up_Name = pkg_Name pkg, up_Version = pkg_VersionInfo pkg, up_License = license,
          up_PURL = []\<rparr>)"

definition extractAndNormalizeSPDX :: "RawMessage \<Rightarrow> extract_error + UnifiedSBOM" where
  "extractAndNormalizeSPDX predicate =
     (case unmarshal_raw (dec_object SPDXDocument_field) zero_SPDXDocument predicate of
        Inl err \<Rightarrow> Inl (ParseSPDXFailed err)
      | Inr sbom \<Rightarrow>
          Inr \<lparr>sbom_Format = ''spdx'', sbom_Packages = map spdx_package (doc_Packages sbom)\<rparr>)"

text \<open>The body of the loop over \<^verbatim>\<open>sbom.Components\<close> (verifier.go:298-314).\<close>

definition cyclonedx_package :: "CycloneDXComponent \<Rightarrow> UnifiedPackage" where
  "cyclonedx_package component =
     (let license =
        (case comp_Licenses component of
           [] \<Rightarrow> []
         | l0 # _ \<Rightarrow>
             if li_ID (lic_License l0) \<noteq> [] then li_ID (lic_License l0)
             else if li_Name (lic_License l0) \<noteq> [] then li_Name (lic_License l0)
             else [])
      in \<lparr>up_Name = comp_Name component, up_Version = comp_Version component,
          up_License = license, up_PURL = comp_Purl component\<rparr>)"

definition extractAndNormalizeCycloneDX :: "RawMessage \<Rightarrow> extract_error + UnifiedSBOM" where
  "extractAndNormalizeCycloneDX predicate =
     (case unmarshal_raw (dec_object CycloneDXBOM_field) zero_CycloneDXBOM predicate of
        Inl err \<Rightarrow> Inl (ParseCycloneDXFailed err)
      | Inr sbom \<Rightarrow>
          Inr \<lparr>sbom_Format = ''cyclonedx'',
               sbom_Packages = map cyclonedx_package (bom_Components sbom)\<rparr>)"

subsection \<open>extractSBOMFromAttestation\<close>

text \<open>
  The DSSE check (verifier.go:221-234): when the bytes decode as an envelope with a
  payload that is not empty, the payload is base64-decoded and takes their place.
\<close>

definition unwrapEnvelope :: "string \<Rightarrow> extract_error + string" where
  "unwrapEnvelope attestation =
     (case unmarshal (dec_object Envelope_field) zero_Envelope attestation of
        Inl err \<Rightarrow> Inr attestation
      | Inr envelope \<Rightarrow>
          if dsse_Payload envelope \<noteq> [] then
            (case base64_DecodeString (dsse_Payload envelope) of
               None \<Rightarrow> Inl DecodeDSSEFailed
             | Some decodedPayload \<Rightarrow> Inr decodedPayload)
          else Inr attestation)"

text \<open>
  Parsing the in-toto statement and the switch on its predicate type
  (verifier.go:236-255). The result \<open>Inr None\<close> is Go's \<^verbatim>\<open>nil, nil\<close>.
\<close>

definition extractStatement :: "string \<Rightarrow> extract_error + UnifiedSBOM option" where
  "extractStatement attestation =
     (case unmarshal (dec_object Statement_field) zero_Statement attestation of
        Inl err \<Rightarrow> Inl (ParseStatementFailed err)
      | Inr statement \<Rightarrow>
          if st_PredicateType statement = ''https://spdx.dev/Document''
             \<or> st_PredicateType statement = ''https://spdx.dev/Document/v2.3''
             \<or> st_PredicateType statement = ''spdx''
          then map_sum id Some (extractAndNormalizeSPDX (st_Predicate statement))
          else if st_PredicateType statement = ''https://cyclonedx.org/bom''
             \<or> st_PredicateType statement = ''https://cyclonedx.org/schema''
             \<or> st_PredicateType statement = ''cyclonedx''
          then map_sum id Some (extractAndNormalizeCycloneDX (st_Predicate statement))
          else Inr None)"

definition extractSBOMFromAttestation :: "string \<Rightarrow> extract_error + UnifiedSBOM option" where
  "extractSBOMFromAttestation attestation =
     (case unwrapEnvelope attestation of
        Inl err \<Rightarrow> Inl err
      | Inr attestation' \<Rightarrow> extractStatement attestation')"

subsection \<open>createKeychainWithSecrets\<close>

text \<open>The loop that fetches the named secrets (verifier.go:195-203).\<close>

fun fetchSecrets ::
  "world \<Rightarrow> Clientset \<Rightarrow> string \<Rightarrow> string list \<Rightarrow> event list \<times> Secret list" where
  "fetchSecrets w clientset namespace [] = ([], [])"
| "fetchSecrets w clientset namespace (secretName # rest) =
     (case Secrets_Get w clientset namespace secretName of
        Inl err \<Rightarrow>
          (LogSecretWarning secretName err # fst (fetchSecrets w clientset namespace rest),
           snd (fetchSecrets w clientset namespace rest))
      | Inr secret \<Rightarrow>
          (fst (fetchSecrets w clientset namespace rest),
           secret # snd (fetchSecrets w clientset namespace rest)))"

definition createKeychainWithSecrets ::
  "world \<Rightarrow> AttestationVerifier \<Rightarrow> string list \<Rightarrow> event list \<times> (string + Keychain)" where
  "createKeychainWithSecrets w v secretNames =
     (if length secretNames = 0 then ([], Inr (keychain v))
      else
        (case rest_InClusterConfig w of
           Inl err \<Rightarrow> ([], Inl (''failed to get in-cluster config: '' @ err))
         | Inr config \<Rightarrow>
            (case kubernetes_NewForConfig w config of
               Inl err \<Rightarrow> ([], Inl (''failed to create kubernetes client: '' @ err))
             | Inr clientset \<Rightarrow>
                (let namespace =
                       (if os_Getenv w ''POD_NAMESPACE'' = [] then ''default''
                        else os_Getenv w ''POD_NAMESPACE'');
                     fetched = fetchSecrets w clientset namespace secretNames;
                     secrets = snd fetched
                 in if length secrets = 0 then (fst fetched, Inr (keychain v))
                    else
                      (case k8schain_NewFromPullSecrets w secrets of
                         Inl err \<Rightarrow>
                           (fst fetched, Inl (''failed to create keychain from secrets: '' @ err))
                       | Inr secretKeychain \<Rightarrow>
                           (fst fetched, Inr (MultiKeychain [secretKeychain, keychain v])))))))"

subsection \<open>VerifyAndExtractSBOMWithParams\<close>

text \<open>
  The secret names of the key (verifier.go:75-81). \<^verbatim>\<open>secretNames\<close> starts nil, is
  handed to \<^verbatim>\<open>json.Unmarshal\<close> when the key has a second segment that is not empty,
  and keeps whatever that call stored; an error is logged and nothing else.
\<close>

definition parseSecretNames :: "string list \<Rightarrow> event list \<times> string list" where
  "parseSecretNames parts =
     (if length parts \<ge> 2 \<and> parts ! 1 \<noteq> [] then
        (case unmarshal_strings (parts ! 1) of
           (secretNames, Some err) \<Rightarrow> ([LogSecretsParseWarning err], secretNames)
         | (secretNames, None) \<Rightarrow> ([], secretNames))
      else ([], []))"

text \<open>The check options (verifier.go:108-131).\<close>

definition newCheckOpts ::
  "AttestationVerifier \<Rightarrow> Keychain \<Rightarrow> string \<Rightarrow> string \<Rightarrow> CheckOpts" where
  "newCheckOpts v kc certIdentity certOidcIssuer =
     \<lparr>RegistryClientOpts = kc,
      ClaimVerifier = IntotoSubjectClaimVerifier,
      IgnoreTlog = False,
      IgnoreSCT = True,
      ExperimentalOCI11 = useReferrers v,
      NewBundleFormat = True,
      Identities =
        (if certIdentity \<noteq> [] \<or> certOidcIssuer \<noteq> [] then [(certOidcIssuer, certIdentity)]
         else []),
      TrustedMaterial = trustedRoot v\<rparr>"

text \<open>
  Fetching and verifying (verifier.go:133-140): one call with the options as built,
  and on an error one more with the two flags off, whose result stands.
\<close>

definition fetchAttestations ::
  "world \<Rightarrow> Reference \<Rightarrow> CheckOpts \<Rightarrow> event list \<times> (string + Attestation list)" where
  "fetchAttestations w ref checkOpts =
     (case cosign_VerifyImageAttestations w ref checkOpts of
        Inr attestations \<Rightarrow> ([Call_VerifyImageAttestations ref checkOpts], Inr attestations)
      | Inl fetchErr \<Rightarrow>
          (let checkOpts' = checkOpts\<lparr>ExperimentalOCI11 := False, NewBundleFormat := False\<rparr>
           in ([Call_VerifyImageAttestations ref checkOpts,
                Call_VerifyImageAttestations ref checkOpts'],
               cosign_VerifyImageAttestations w ref checkOpts')))"

text \<open>
  The loop over the attestations (verifier.go:151-165); \<open>None\<close> when it runs to its
  end without returning.
\<close>

fun firstSBOM :: "Attestation list \<Rightarrow> event list \<times> UnifiedSBOM option" where
  "firstSBOM [] = ([], None)"
| "firstSBOM (att # rest) =
     (case Payload att of
        Inl err \<Rightarrow> (Call_Payload att # fst (firstSBOM rest), snd (firstSBOM rest))
      | Inr payload \<Rightarrow>
         (case extractSBOMFromAttestation payload of
            Inl err \<Rightarrow> (Call_Payload att # fst (firstSBOM rest), snd (firstSBOM rest))
          | Inr None \<Rightarrow> (Call_Payload att # fst (firstSBOM rest), snd (firstSBOM rest))
          | Inr (Some sbom) \<Rightarrow> ([Call_Payload att], Some sbom)))"

text \<open>
  Everything before the first call to cosign (verifier.go:73-131): the key is split,
  the secret names are read, identity and issuer are taken from the key where the
  caller gave none, the keychain is built (the verifier's own on an error) and the
  image reference is parsed. \<^verbatim>\<open>strings.SplitN\<close> returns at least one piece, so
  \<^verbatim>\<open>parts[0]\<close> is always there (\<open>SplitN_not_empty\<close> below).
\<close>

definition prepareVerification ::
  "world \<Rightarrow> AttestationVerifier \<Rightarrow> string \<Rightarrow> string \<Rightarrow> string \<Rightarrow>
     event list \<times> (verify_error + Reference \<times> CheckOpts)" where
  "prepareVerification w v key certIdentity0 certOidcIssuer0 =
     (let parts = SplitN (CHR ''|'') 4 key;
          imageRef = parts ! 0;
          parsed = parseSecretNames parts;
          secretNames = snd parsed;
          certIdentity = (if certIdentity0 = [] \<and> length parts \<ge> 3 then parts ! 2
                          else certIdentity0);
          certOidcIssuer = (if certOidcIssuer0 = [] \<and> length parts \<ge> 4 then parts ! 3
                            else certOidcIssuer0);
          created = createKeychainWithSecrets w v secretNames;
          evs = fst parsed
                @ [LogVerifying imageRef (length secretNames) certIdentity certOidcIssuer]
                @ fst created
                @ (case snd created of Inl err \<Rightarrow> [LogKeychainWarning err] | Inr kc \<Rightarrow> []);
          kc = (case snd created of Inl err \<Rightarrow> keychain v | Inr kc \<Rightarrow> kc)
      in case name_ParseReference w imageRef of
           Inl err \<Rightarrow> (evs, Inl (ParseReferenceFailed err))
         | Inr ref \<Rightarrow> (evs, Inr (ref, newCheckOpts v kc certIdentity certOidcIssuer)))"

definition VerifyAndExtractSBOMWithParams ::
  "world \<Rightarrow> AttestationVerifier \<Rightarrow> string \<Rightarrow> string \<Rightarrow> string \<Rightarrow>
     event list \<times> (verify_error + UnifiedSBOM)" where
  "VerifyAndExtractSBOMWithParams w v key certIdentity certOidcIssuer =
     (let prepared = prepareVerification w v key certIdentity certOidcIssuer
      in case snd prepared of
           Inl err \<Rightarrow> (fst prepared, Inl err)
         | Inr (ref, checkOpts) \<Rightarrow>
            (let fetched = fetchAttestations w ref checkOpts;
                 evs = fst prepared @ fst fetched
             in case snd fetched of
                  Inl fetchErr \<Rightarrow> (evs, Inl (FetchVerifyFailed fetchErr))
                | Inr attestations \<Rightarrow>
                   if length attestations = 0 then (evs, Inl NoAttestationsFound)
                   else
                     (case snd (firstSBOM attestations) of
                        Some sbom \<Rightarrow> (evs @ fst (firstSBOM attestations), Inr sbom)
                      | None \<Rightarrow> (evs @ fst (firstSBOM attestations), Inl NoSBOMFound))))"

section \<open>server.go\<close>

text \<open>
  What \<^verbatim>\<open>json.Marshal\<close> writes for a \<^verbatim>\<open>*UnifiedSBOM\<close>, from the json tags of types.go:
  \<^verbatim>\<open>purl\<close> is \<^verbatim>\<open>omitempty\<close>. Both extractors make the package slice with \<^verbatim>\<open>make\<close>,
  so it is written as an array also when it is empty. Strings, a slice and two
  structs cannot make \<^verbatim>\<open>json.Marshal\<close> fail.
\<close>

definition UnifiedPackage_json :: "UnifiedPackage \<Rightarrow> json" where
  "UnifiedPackage_json p =
     JObj ([(''name'', JStr (up_Name p)),
            (''versionInfo'', JStr (up_Version p)),
            (''licenseConcluded'', JStr (up_License p))]
           @ (if up_PURL p = [] then [] else [(''purl'', JStr (up_PURL p))]))"

definition UnifiedSBOM_json :: "UnifiedSBOM \<Rightarrow> json" where
  "UnifiedSBOM_json s =
     JObj [(''format'', JStr (sbom_Format s)),
           (''packages'', JArr (map UnifiedPackage_json (sbom_Packages s)))]"

definition json_Marshal :: "UnifiedSBOM \<Rightarrow> string + string" where
  "json_Marshal sbomData = Inr (json_encode (UnifiedSBOM_json sbomData))"

record Server =
  port :: string
  verifier :: AttestationVerifier
  timeout :: int
  tlsCert :: string
  tlsKey :: string

text \<open>
  Identity and issuer as \<^verbatim>\<open>processImageRef\<close> reads them from the key
  (server.go:120-126): the third and fourth piece, when the key has four or more.
\<close>

definition keyIdentity :: "string \<Rightarrow> string \<times> string" where
  "keyIdentity imageRef =
     (let parts = Split (CHR ''|'') imageRef
      in if length parts \<ge> 4 then (parts ! 2, parts ! 3) else ([], []))"

definition processImageRef :: "world \<Rightarrow> Server \<Rightarrow> string \<Rightarrow> event list \<times> Item" where
  "processImageRef w s imageRef =
     (let parts = Split (CHR ''|'') imageRef;
          certIdentity = fst (keyIdentity imageRef);
          certOidcIssuer = snd (keyIdentity imageRef);
          run = VerifyAndExtractSBOMWithParams w (verifier s) imageRef certIdentity certOidcIssuer
      in case snd run of
           Inl err \<Rightarrow>
             (fst run,
              \<lparr>item_Key = imageRef, item_Value = [],
               item_Error = ''Failed to verify attestation or extract SBOM: '' @ error_text err\<rparr>)
         | Inr sbomData \<Rightarrow>
            (case json_Marshal sbomData of
               Inl err \<Rightarrow>
                 (fst run,
                  \<lparr>item_Key = imageRef, item_Value = [],
                   item_Error = ''Failed to marshal SBOM: '' @ err\<rparr>)
             | Inr sbomJSON \<Rightarrow>
                 (fst run @ [LogSuccess (parts ! 0) (length sbomJSON)],
                  \<lparr>item_Key = imageRef, item_Value = sbomJSON, item_Error = []\<rparr>)))"

text \<open>The loop over the keys of the request (server.go:79-83).\<close>

fun processKeys :: "world \<Rightarrow> Server \<Rightarrow> string list \<Rightarrow> event list \<times> Item list" where
  "processKeys w s [] = ([], [])"
| "processKeys w s (imageRef # rest) =
     (fst (processImageRef w s imageRef) @ fst (processKeys w s rest),
      snd (processImageRef w s imageRef) # snd (processKeys w s rest))"

record HTTPRequest =
  http_Method :: string
  http_Body :: "string + string"

datatype HTTPResponse =
    HTTPError string nat
  | HTTPJSON ProviderResponse

text \<open>
  \<^verbatim>\<open>handleVerify\<close> up to the response it hands to the encoder; writing it to the
  connection is left out. The body of the request is what \<^verbatim>\<open>io.ReadAll\<close> returns.
\<close>

definition handleVerify :: "world \<Rightarrow> Server \<Rightarrow> HTTPRequest \<Rightarrow> event list \<times> HTTPResponse" where
  "handleVerify w s r =
     (if http_Method r \<noteq> ''POST'' then ([], HTTPError ''Method not allowed'' 405)
      else
        (case http_Body r of
           Inl err \<Rightarrow> ([LogBodyError err], HTTPError ''Failed to read request'' 400)
         | Inr body \<Rightarrow>
            (case unmarshal (dec_object ProviderRequest_field) zero_ProviderRequest body of
               Inl err \<Rightarrow> ([LogRequestError err], HTTPError ''Invalid request format'' 400)
             | Inr providerReq \<Rightarrow>
                (let keys = req_Keys (preq_Request providerReq);
                     processed = processKeys w s keys;
                     items = snd processed;
                     response =
                       \<lparr>presp_APIVersion = ''externaldata.gatekeeper.sh/v1beta1'',
                        presp_Kind = ''ProviderResponse'',
                        presp_Response = \<lparr>resp_Items = items, resp_SystemError = []\<rparr>\<rparr>;
                     failed = filter (\<lambda>item. item_Error item \<noteq> []) items;
                     errorCount = length failed
                 in ([LogReceived (length keys)]
                     @ fst processed
                     @ map (\<lambda>item. LogErrorFor (item_Key item) (item_Error item)) failed
                     @ [LogProcessed (length items) errorCount
                          (int (length items) - int errorCount)],
                     HTTPJSON response)))))"

section \<open>Properties\<close>

subsection \<open>Vocabulary of the statements\<close>

text \<open>The calls to cosign and to \<^verbatim>\<open>Payload()\<close> among the events of a run, in order.\<close>

fun verify_calls :: "event list \<Rightarrow> (Reference \<times> CheckOpts) list" where
  "verify_calls [] = []"
| "verify_calls (Call_VerifyImageAttestations r c # es) = (r, c) # verify_calls es"
| "verify_calls (e # es) = verify_calls es"

fun payload_calls :: "event list \<Rightarrow> Attestation list" where
  "payload_calls [] = []"
| "payload_calls (Call_Payload a # es) = a # payload_calls es"
| "payload_calls (e # es) = payload_calls es"

text \<open>
  What can happen to one attestation in the loop: its payload cannot be read, the
  extractor returns an error, the extractor returns \<^verbatim>\<open>nil, nil\<close>, or it returns an SBOM.
\<close>

definition payloadFails :: "Attestation \<Rightarrow> bool" where
  "payloadFails att = isl (Payload att)"

definition extractionFails :: "Attestation \<Rightarrow> bool" where
  "extractionFails att =
     (case Payload att of
        Inl err \<Rightarrow> False
      | Inr payload \<Rightarrow> isl (extractSBOMFromAttestation payload))"

definition noSBOM :: "Attestation \<Rightarrow> bool" where
  "noSBOM att =
     (case Payload att of
        Inl err \<Rightarrow> False
      | Inr payload \<Rightarrow> extractSBOMFromAttestation payload = Inr None)"

definition yieldsSBOM :: "Attestation \<Rightarrow> UnifiedSBOM \<Rightarrow> bool" where
  "yieldsSBOM att sbom =
     (case Payload att of
        Inl err \<Rightarrow> False
      | Inr payload \<Rightarrow> extractSBOMFromAttestation payload = Inr (Some sbom))"

definition passedOver :: "Attestation \<Rightarrow> bool" where
  "passedOver att = (payloadFails att \<or> extractionFails att \<or> noSBOM att)"

text \<open>The predicate types of the switch (verifier.go:249-252).\<close>

definition recognizedPredicateTypes :: "string list" where
  "recognizedPredicateTypes =
     [''https://spdx.dev/Document'', ''https://spdx.dev/Document/v2.3'', ''spdx'',
      ''https://cyclonedx.org/bom'', ''https://cyclonedx.org/schema'', ''cyclonedx'']"

text \<open>
  Bytes that the DSSE check takes for an envelope: they decode into the envelope
  struct and leave its payload field not empty.
\<close>

definition readAsEnvelope :: "string \<Rightarrow> bool" where
  "readAsEnvelope bytes =
     (case unmarshal (dec_object Envelope_field) zero_Envelope bytes of
        Inl err \<Rightarrow> False
      | Inr envelope \<Rightarrow> dsse_Payload envelope \<noteq> [])"

definition has_member :: "string \<Rightarrow> json \<Rightarrow> bool" where
  "has_member k j = (case j of JObj ms \<Rightarrow> list_ex (\<lambda>m. fst m = k) ms | _ \<Rightarrow> False)"

definition exactlyOne :: "Item \<Rightarrow> bool" where
  "exactlyOne item =
     ((item_Value item \<noteq> [] \<and> item_Error item = [])
      \<or> (item_Value item = [] \<and> item_Error item \<noteq> []))"

subsection \<open>Example inputs\<close>

definition example_verifier :: AttestationVerifier where
  "example_verifier =
     \<lparr>useReferrers = True, keychain = DefaultKeychain, trustedRoot = TrustedRoot ''sigstore''\<rparr>"

definition example_server :: Server where
  "example_server = \<lparr>port = ''8090'', verifier = example_verifier, timeout = 30000000000,
     tlsCert = [], tlsKey = []\<rparr>"

text \<open>
  A cluster that holds one pull secret, \<^verbatim>\<open>a\<close>, in the namespace \<^verbatim>\<open>default\<close>, and a
  registry given by what cosign answers for a reference and check options.
\<close>

definition example_world ::
  "(Reference \<Rightarrow> CheckOpts \<Rightarrow> string + Attestation list) \<Rightarrow> world" where
  "example_world registry =
     \<lparr>rest_InClusterConfig = Inr (RestConfig ''https://10.0.0.1''),
      kubernetes_NewForConfig = (\<lambda>config. Inr (Clientset config)),
      os_Getenv = (\<lambda>name. []),
      Secrets_Get = (\<lambda>clientset namespace name.
         if namespace = ''default'' \<and> name = ''a'' then Inr (Secret ''a'' ''auth'')
         else Inl ''not found''),
      k8schain_NewFromPullSecrets = (\<lambda>secrets. Inr (PullSecretsKeychain secrets)),
      name_ParseReference = (\<lambda>s. if s = [] then Inl ''empty reference'' else Inr (Reference s)),
      cosign_VerifyImageAttestations = registry\<rparr>"

text \<open>In-toto statements, bare and in a DSSE envelope, and what the extractor makes of them.\<close>

definition statement_spdx :: string where
  \<open>statement_spdx = ''{"predicateType":"spdx","predicate":{"packages":[{"name":"a"}]}}''\<close>

definition statement_spdx_base64 :: string where
  \<open>statement_spdx_base64 = ''eyJwcmVkaWNhdGVUeXBlIjoic3BkeCIsInByZWRpY2F0ZSI6eyJwYWNrYWdlcyI6W3sibmFtZSI6ImEifV19fQ==''\<close>

definition envelope_spdx :: string where
  \<open>envelope_spdx = ''{"payloadType":"application/vnd.in-toto+json","payload":"eyJwcmVkaWNhdGVUeXBlIjoic3BkeCIsInByZWRpY2F0ZSI6eyJwYWNrYWdlcyI6W3sibmFtZSI6ImEifV19fQ==","signatures":[]}''\<close>

definition statement_unknown :: string where
  \<open>statement_unknown = ''{"_type":"https://in-toto.io/Statement/v0.1","predicateType":"https://example.com/unknown","predicate":{}}''\<close>

definition statement_cyclonedx :: string where
  \<open>statement_cyclonedx = ''{"predicateType":"https://cyclonedx.org/bom","predicate":{"components":[{"name":"express","version":"4.18.2","purl":"pkg:npm/express@4.18.2","licenses":[{"license":{"id":"MIT"}}]}]}}''\<close>

text \<open>Two statements that carry, beside their own members, a member named \<^verbatim>\<open>payload\<close>.\<close>

definition statement_unknown_with_payload :: string where
  \<open>statement_unknown_with_payload = ''{"_type":"https://in-toto.io/Statement/v0.1","predicateType":"https://example.com/unknown","predicate":{},"payload":"!"}''\<close>

definition statement_spdx_with_payload :: string where
  \<open>statement_spdx_with_payload = ''{"_type":"https://in-toto.io/Statement/v0.1","predicateType":"spdx","predicate":{"packages":[{"name":"a"}]},"payload":"!"}''\<close>

definition statement_spdx_with_payload_base64 :: string where
  \<open>statement_spdx_with_payload_base64 = ''eyJfdHlwZSI6Imh0dHBzOi8vaW4tdG90by5pby9TdGF0ZW1lbnQvdjAuMSIsInByZWRpY2F0ZVR5cGUiOiJzcGR4IiwicHJlZGljYXRlIjp7InBhY2thZ2VzIjpbeyJuYW1lIjoiYSJ9XX0sInBheWxvYWQiOiIhIn0=''\<close>

definition envelope_spdx_with_payload :: string where
  \<open>envelope_spdx_with_payload = ''{"payloadType":"application/vnd.in-toto+json","payload":"eyJfdHlwZSI6Imh0dHBzOi8vaW4tdG90by5pby9TdGF0ZW1lbnQvdjAuMSIsInByZWRpY2F0ZVR5cGUiOiJzcGR4IiwicHJlZGljYXRlIjp7InBhY2thZ2VzIjpbeyJuYW1lIjoiYSJ9XX0sInBheWxvYWQiOiIhIn0=","signatures":[]}''\<close>

definition sbom_a :: UnifiedSBOM where
  "sbom_a = \<lparr>sbom_Format = ''spdx'',
     sbom_Packages = [\<lparr>up_Name = ''a'', up_Version = [], up_License = [], up_PURL = []\<rparr>]\<rparr>"

definition sbom_express :: UnifiedSBOM where
  "sbom_express = \<lparr>sbom_Format = ''cyclonedx'',
     sbom_Packages = [\<lparr>up_Name = ''express'', up_Version = ''4.18.2'', up_License = ''MIT'',
                      up_PURL = ''pkg:npm/express@4.18.2''\<rparr>]\<rparr>"

text \<open>What cosign may answer.\<close>

definition registry_both_fail :: "Reference \<Rightarrow> CheckOpts \<Rightarrow> string + Attestation list" where
  "registry_both_fail ref opts =
     (if NewBundleFormat opts then Inl ''referrers API not supported''
      else Inl ''no matching attestations'')"

definition registry_legacy_empty :: "Reference \<Rightarrow> CheckOpts \<Rightarrow> string + Attestation list" where
  "registry_legacy_empty ref opts =
     (if NewBundleFormat opts then Inl ''referrers API not supported'' else Inr [])"

definition attestations_mixed :: "Attestation list" where
  "attestations_mixed =
     [Attestation (Inl ''layer not found''), Attestation (Inr ''not json''),
      Attestation (Inr statement_unknown), Attestation (Inr statement_spdx),
      Attestation (Inr statement_cyclonedx)]"

definition registry_mixed :: "Reference \<Rightarrow> CheckOpts \<Rightarrow> string + Attestation list" where
  "registry_mixed ref opts = Inr attestations_mixed"

definition registry_no_sbom :: "Reference \<Rightarrow> CheckOpts \<Rightarrow> string + Attestation list" where
  "registry_no_sbom ref opts = Inr (take 3 attestations_mixed)"

definition registry_by_image :: "Reference \<Rightarrow> CheckOpts \<Rightarrow> string + Attestation list" where
  "registry_by_image ref opts =
     (if ref = Reference ''img-a'' then Inr [Attestation (Inr statement_spdx)]
      else Inl ''no matching attestations'')"

text \<open>An SPDX document and a CycloneDX BOM, after the tests of the repository.\<close>

definition spdx_document :: string where
  \<open>spdx_document = ''{"SPDXID":"SPDXRef-DOCUMENT","spdxVersion":"SPDX-2.3","name":"test","packages":[{"name":"pkg1","versionInfo":"1.0.0","licenseConcluded":"","licenseDeclared":"BSD-3-Clause"},{"name":"pkg2","versionInfo":"2.0.0","licenseConcluded":"Apache-2.0","licenseDeclared":"MIT"},{"name":"pkg1","versionInfo":"1.0.0","licenseDeclared":"BSD-3-Clause","externalRefs":[{"referenceCategory":"PACKAGE-MANAGER","referenceType":"purl","referenceLocator":"pkg:npm/pkg1@1.0.0"}]},{"name":"pkg3"}]}''\<close>

definition spdx_document_decoded :: SPDXDocument where
  "spdx_document_decoded = zero_SPDXDocument
     \<lparr>doc_SPDXID := ''SPDXRef-DOCUMENT'', doc_SPDXVersion := ''SPDX-2.3'', doc_Name := ''test'',
      doc_Packages :=
        [zero_SPDXPackage\<lparr>pkg_Name := ''pkg1'', pkg_VersionInfo := ''1.0.0'',
           pkg_LicenseDeclared := ''BSD-3-Clause''\<rparr>,
         zero_SPDXPackage\<lparr>pkg_Name := ''pkg2'', pkg_VersionInfo := ''2.0.0'',
           pkg_LicenseConcluded := ''Apache-2.0'', pkg_LicenseDeclared := ''MIT''\<rparr>,
         zero_SPDXPackage\<lparr>pkg_Name := ''pkg1'', pkg_VersionInfo := ''1.0.0'',
           pkg_LicenseDeclared := ''BSD-3-Clause'',
           pkg_ExternalRefs :=
             [\<lparr>ref_ReferenceCategory = ''PACKAGE-MANAGER'', ref_ReferenceType = ''purl'',
               ref_ReferenceLocator = ''pkg:npm/pkg1@1.0.0''\<rparr>]\<rparr>,
         zero_SPDXPackage\<lparr>pkg_Name := ''pkg3''\<rparr>]\<rparr>"

definition spdx_document_normalized :: UnifiedSBOM where
  "spdx_document_normalized = \<lparr>sbom_Format = ''spdx'',
     sbom_Packages =
       [\<lparr>up_Name = ''pkg1'', up_Version = ''1.0.0'', up_License = ''BSD-3-Clause'', up_PURL = []\<rparr>,
        \<lparr>up_Name = ''pkg2'', up_Version = ''2.0.0'', up_License = ''Apache-2.0'', up_PURL = []\<rparr>,
        \<lparr>up_Name = ''pkg1'', up_Version = ''1.0.0'', up_License = ''BSD-3-Clause'', up_PURL = []\<rparr>,
        \<lparr>up_Name = ''pkg3'', up_Version = [], up_License = [], up_PURL = []\<rparr>]\<rparr>"

definition cyclonedx_bom :: string where
  \<open>cyclonedx_bom = ''{"bomFormat":"CycloneDX","specVersion":"1.4","version":1,"components":[{"name":"pkg-with-id","version":"1.0.0","licenses":[{"license":{"id":"MIT","name":"MIT License"}},{"license":{"id":"GPL-3.0"}}]},{"name":"pkg-with-name","version":"2.0.0","purl":"pkg:npm/pkg-with-name@2.0.0","licenses":[{"license":{"name":"Custom License"}}]},{"name":"pkg-no-license","version":"3.0.0","licenses":[]}]}''\<close>

definition cyclonedx_bom_decoded :: CycloneDXBOM where
  "cyclonedx_bom_decoded = zero_CycloneDXBOM
     \<lparr>bom_BOMFormat := ''CycloneDX'', bom_SpecVersion := ''1.4'', bom_Version := 1,
      bom_Components :=
        [zero_CycloneDXComponent\<lparr>comp_Name := ''pkg-with-id'', comp_Version := ''1.0.0'',
           comp_Licenses := [\<lparr>lic_License = \<lparr>li_ID = ''MIT'', li_Name = ''MIT License''\<rparr>\<rparr>,
                             \<lparr>lic_License = \<lparr>li_ID = ''GPL-3.0'', li_Name = []\<rparr>\<rparr>]\<rparr>,
         zero_CycloneDXComponent\<lparr>comp_Name := ''pkg-with-name'', comp_Version := ''2.0.0'',
           comp_Purl := ''pkg:npm/pkg-with-name@2.0.0'',
           comp_Licenses := [\<lparr>lic_License = \<lparr>li_ID = [], li_Name = ''Custom License''\<rparr>\<rparr>]\<rparr>,
         zero_CycloneDXComponent\<lparr>comp_Name := ''pkg-no-license'', comp_Version := ''3.0.0''\<rparr>]\<rparr>"

text \<open>A request for two keys, and the two items of its response.\<close>

definition key_a :: string where
  \<open>key_a = ''img-a|[]|u@example.com|https://issuer''\<close>

definition request_body :: string where
  \<open>request_body = ''{"apiVersion":"externaldata.gatekeeper.sh/v1beta1","kind":"ProviderRequest","request":{"keys":["img-a|[]|u@example.com|https://issuer","img-b"]}}''\<close>

definition item_a :: Item where
  \<open>item_a = \<lparr>item_Key = key_a,
     item_Value = ''{"format":"spdx","packages":[{"name":"a","versionInfo":"","licenseConcluded":""}]}'',
     item_Error = []\<rparr>\<close>

definition item_b :: Item where
  "item_b = \<lparr>item_Key = ''img-b'', item_Value = [],
     item_Error = ''Failed to verify attestation or extract SBOM: failed to fetch/verify attestations: no matching attestations''\<rparr>"

text \<open>A key whose second piece is an array with an element that is not a string.\<close>

definition key_partial :: string where
  \<open>key_partial = ''img|["a",1]''\<close>

subsection \<open>Rules for evaluating the model on a given input\<close>

lemmas json_eval = json_parse_def step_idle_def is_space_def is_digit_def is_numchar_def
  lex_finish_def valid_number_def num_frac_def num_exp_def unquote_def push_value_def
  push_frame_def begin_value_def take_key_def close_array_def close_object_def
  maxNestingDepth_def hexval_def utf8_len_def utf8_encode_def is_cont_def in_range_def
  replacement_char_def

lemmas dec_eval = unmarshal_def unmarshal_raw_def dec_object_def dec_slice_def dec_string_def
  dec_bool_def dec_int_def int_literal_def digits_value_def name_is_def upper_def
  dec_any_slice_def Envelope_field_def
  Statement_field_def SPDXDocument_field_def SPDXPackage_field_def ExtRef_field_def
  CreationInfo_field_def CycloneDXBOM_field_def CycloneDXComponent_field_def
  CycloneDXLicense_field_def CycloneDXLicenseInfo_field_def CycloneDXHash_field_def
  CycloneDXMetadata_field_def Request_field_def ProviderRequest_field_def
  zero_Envelope_def zero_Statement_def zero_SPDXDocument_def zero_SPDXPackage_def
  zero_ExtRef_def zero_CreationInfo_def zero_CycloneDXBOM_def zero_CycloneDXComponent_def
  zero_CycloneDXLicense_def zero_CycloneDXLicenseInfo_def zero_CycloneDXHash_def
  zero_CycloneDXMetadata_def zero_Request_def zero_ProviderRequest_def

lemmas b64_eval = base64_DecodeString_def quantum_def last_quantum_def b64val_def char_of_eq_iff

lemmas extract_eval = extractSBOMFromAttestation_def unwrapEnvelope_def extractStatement_def
  extractAndNormalizeSPDX_def extractAndNormalizeCycloneDX_def spdx_package_def
  cyclonedx_package_def

lemmas marshal_eval = json_Marshal_def UnifiedSBOM_json_def UnifiedPackage_json_def
  encode_string_def escape_ascii_def hexdigit_def

lemmas world_eval = example_world_def example_verifier_def example_server_def
  registry_both_fail_def registry_legacy_empty_def

lemmas payload_eval = statement_spdx_def statement_spdx_base64_def envelope_spdx_def
  statement_unknown_def statement_cyclonedx_def statement_unknown_with_payload_def
  statement_spdx_with_payload_def statement_spdx_with_payload_base64_def
  envelope_spdx_with_payload_def sbom_a_def sbom_express_def

lemmas document_eval = spdx_document_def spdx_document_decoded_def cyclonedx_bom_def
  cyclonedx_bom_decoded_def

lemma SplitN_4:
  "SplitN sep 4 s =
     (case cut sep s of
        None \<Rightarrow> [s]
      | Some (a, b) \<Rightarrow>
         (case cut sep b of
            None \<Rightarrow> [a, b]
          | Some (c, d) \<Rightarrow>
             (case cut sep d of None \<Rightarrow> [a, c, d] | Some (e, f) \<Rightarrow> [a, c, e, f])))"
  by (simp add: eval_nat_numeral split: option.splits)

lemmas prepare_eval = prepareVerification_def parseSecretNames_def createKeychainWithSecrets_def
  newCheckOpts_def SplitN_4 Let_def unmarshal_strings_def dec_strings_partial_def
  string_elem_def string_elem_ok_def

subsection \<open>The pieces of a key\<close>

text \<open>Both splits return at least one piece, so \<^verbatim>\<open>parts[0]\<close> never panics.\<close>

lemma SplitN_not_empty: "SplitN sep (Suc n) s \<noteq> []"
  by (cases n) (auto split: option.splits)

lemma Split_not_empty: "Split sep s \<noteq> []"
  by (induction s) (auto split: list.splits)

text \<open>
  A second piece that is not JSON at all leaves the secret names empty: the scan
  fails before anything is stored.
\<close>

lemma parseSecretNames_syntax_error:
  "seg \<noteq> [] \<Longrightarrow> json_parse seg = None \<Longrightarrow>
     parseSecretNames (imageRef # seg # rest) = ([LogSecretsParseWarning SyntaxError], [])"
  by (simp add: parseSecretNames_def unmarshal_strings_def)

subsection \<open>Which events are calls\<close>

lemma verify_calls_append: "verify_calls (xs @ ys) = verify_calls xs @ verify_calls ys"
  by (induction xs rule: verify_calls.induct) auto

lemma payload_calls_append: "payload_calls (xs @ ys) = payload_calls xs @ payload_calls ys"
  by (induction xs rule: payload_calls.induct) auto

lemma payload_calls_map: "payload_calls (map Call_Payload xs) = xs"
  by (induction xs) auto

lemma fetchSecrets_calls:
  "verify_calls (fst (fetchSecrets w c n xs)) = []
   \<and> payload_calls (fst (fetchSecrets w c n xs)) = []"
  by (induction xs) (auto split: sum.splits)

lemma createKeychain_calls:
  "verify_calls (fst (createKeychainWithSecrets w v xs)) = []
   \<and> payload_calls (fst (createKeychainWithSecrets w v xs)) = []"
  by (auto simp: createKeychainWithSecrets_def Let_def fetchSecrets_calls split: sum.splits)

lemma parseSecretNames_calls:
  "verify_calls (fst (parseSecretNames ps)) = [] \<and> payload_calls (fst (parseSecretNames ps)) = []"
  by (auto simp: parseSecretNames_def split: prod.splits option.splits)

lemma prepare_calls:
  "verify_calls (fst (prepareVerification w v k a b)) = []
   \<and> payload_calls (fst (prepareVerification w v k a b)) = []"
  by (auto simp: prepareVerification_def Let_def verify_calls_append payload_calls_append
        createKeychain_calls parseSecretNames_calls split: sum.splits)

lemma firstSBOM_verify_calls: "verify_calls (fst (firstSBOM atts)) = []"
  by (induction atts) (auto split: sum.splits option.splits)

lemma fetch_payload_calls: "payload_calls (fst (fetchAttestations w r c)) = []"
  by (auto simp: fetchAttestations_def Let_def split: sum.splits)

subsection \<open>The loop over the attestations\<close>

lemma firstSBOM_passedOver:
  "passedOver a \<Longrightarrow>
     firstSBOM (a # rest) = (Call_Payload a # fst (firstSBOM rest), snd (firstSBOM rest))"
  by (auto simp: passedOver_def payloadFails_def extractionFails_def noSBOM_def
        split: sum.splits option.splits)

lemma firstSBOM_yields:
  "yieldsSBOM a sbom \<Longrightarrow> firstSBOM (a # rest) = ([Call_Payload a], Some sbom)"
  by (auto simp: yieldsSBOM_def split: sum.splits option.splits)

lemma firstSBOM_first:
  "list_all passedOver pre \<Longrightarrow> yieldsSBOM a sbom \<Longrightarrow>
     firstSBOM (pre @ a # post) = (map Call_Payload (pre @ [a]), Some sbom)"
proof (induction pre)
  case Nil
  then show ?case by (simp add: firstSBOM_yields del: firstSBOM.simps)
next
  case (Cons b pre)
  then show ?case by (simp add: firstSBOM_passedOver del: firstSBOM.simps)
qed

lemma firstSBOM_none:
  "list_all passedOver atts \<Longrightarrow> firstSBOM atts = (map Call_Payload atts, None)"
proof (induction atts)
  case Nil
  then show ?case by simp
next
  case (Cons b atts)
  then show ?case by (simp add: firstSBOM_passedOver del: firstSBOM.simps)
qed

subsection \<open>The DSSE check\<close>

lemma unwrapEnvelope_bare: "\<not> readAsEnvelope bytes \<Longrightarrow> unwrapEnvelope bytes = Inr bytes"
  by (auto simp: unwrapEnvelope_def readAsEnvelope_def split: sum.splits)

lemma unwrapEnvelope_envelope:
  "unmarshal (dec_object Envelope_field) zero_Envelope bytes = Inr envelope \<Longrightarrow>
   dsse_Payload envelope \<noteq> [] \<Longrightarrow>
     unwrapEnvelope bytes =
       (case base64_DecodeString (dsse_Payload envelope) of
          None \<Rightarrow> Inl DecodeDSSEFailed
        | Some decoded \<Rightarrow> Inr decoded)"
  by (simp add: unwrapEnvelope_def)

subsection \<open>The examples, evaluated\<close>

lemma extract_statement_spdx: "extractSBOMFromAttestation statement_spdx = Inr (Some sbom_a)"
  by (simp add: payload_eval json_eval dec_eval b64_eval extract_eval)

lemma extract_statement_unknown: "extractSBOMFromAttestation statement_unknown = Inr None"
  by (simp add: payload_eval json_eval dec_eval b64_eval extract_eval)

lemma extract_statement_cyclonedx:
  "extractSBOMFromAttestation statement_cyclonedx = Inr (Some sbom_express)"
  by (simp add: payload_eval json_eval dec_eval b64_eval extract_eval)

lemma extract_not_json:
  "extractSBOMFromAttestation ''not json'' = Inl (ParseStatementFailed SyntaxError)"
  by (simp add: json_eval dec_eval b64_eval extract_eval)

lemma passedOver_examples:
  "passedOver (Attestation (Inl ''layer not found''))"
  "passedOver (Attestation (Inr ''not json''))"
  "passedOver (Attestation (Inr statement_unknown))"
  by (simp_all add: passedOver_def payloadFails_def extractionFails_def noSBOM_def
        extract_not_json extract_statement_unknown)

lemma spdx_document_unmarshal:
  "unmarshal_raw (dec_object SPDXDocument_field) zero_SPDXDocument (json_parse spdx_document)
     = Inr spdx_document_decoded"
  by (simp add: document_eval json_eval dec_eval)

lemma spdx_document_normalize:
  "extractAndNormalizeSPDX (json_parse spdx_document) = Inr spdx_document_normalized"
  using spdx_document_unmarshal
  by (simp add: extractAndNormalizeSPDX_def spdx_package_def spdx_document_decoded_def
        spdx_document_normalized_def zero_SPDXDocument_def zero_SPDXPackage_def)

lemma cyclonedx_bom_unmarshal:
  "unmarshal_raw (dec_object CycloneDXBOM_field) zero_CycloneDXBOM (json_parse cyclonedx_bom)
     = Inr cyclonedx_bom_decoded"
  by (simp add: document_eval json_eval dec_eval)

lemma prep_img:
  "snd (prepareVerification (example_world registry) example_verifier ''img'' [] []) =
     Inr (Reference ''img'', newCheckOpts example_verifier DefaultKeychain [] [])"
  by (simp add: prepare_eval world_eval)

lemma prep_img_b:
  "snd (prepareVerification (example_world registry) example_verifier ''img-b'' [] []) =
     Inr (Reference ''img-b'', newCheckOpts example_verifier DefaultKeychain [] [])"
  by (simp add: prepare_eval world_eval)

lemma prep_key_a:
  "snd (prepareVerification (example_world registry) example_verifier key_a
          ''u@example.com'' ''https://issuer'') =
     Inr (Reference ''img-a'',
          newCheckOpts example_verifier DefaultKeychain ''u@example.com'' ''https://issuer'')"
  by (simp add: key_a_def prepare_eval world_eval json_eval)

lemma keyIdentity_key_a: "keyIdentity key_a = (''u@example.com'', ''https://issuer'')"
  by (simp add: keyIdentity_def key_a_def)

lemma keyIdentity_img_b: "keyIdentity ''img-b'' = ([], [])"
  by (simp add: keyIdentity_def)

lemma firstSBOM_statement_spdx:
  "firstSBOM [Attestation (Inr statement_spdx)] =
     ([Call_Payload (Attestation (Inr statement_spdx))], Some sbom_a)"
  by (simp add: extract_statement_spdx)

lemma run_key_a:
  "snd (VerifyAndExtractSBOMWithParams (example_world registry_by_image) example_verifier key_a
          ''u@example.com'' ''https://issuer'') = Inr sbom_a"
  using prep_key_a [of registry_by_image] firstSBOM_statement_spdx
  by (simp add: VerifyAndExtractSBOMWithParams_def Let_def fetchAttestations_def
        example_world_def registry_by_image_def del: firstSBOM.simps)

lemma run_img_b:
  "snd (VerifyAndExtractSBOMWithParams (example_world registry_by_image) example_verifier ''img-b''
          [] []) = Inl (FetchVerifyFailed ''no matching attestations'')"
  using prep_img_b [of registry_by_image]
  by (simp add: VerifyAndExtractSBOMWithParams_def Let_def fetchAttestations_def
        example_world_def registry_by_image_def)

lemma json_Marshal_sbom_a: "json_Marshal sbom_a = Inr (item_Value item_a)"
  by (simp add: sbom_a_def item_a_def marshal_eval)

lemma processImageRef_key_a:
  "snd (processImageRef (example_world registry_by_image) example_server key_a) = item_a"
  using run_key_a json_Marshal_sbom_a
  by (simp add: processImageRef_def Let_def keyIdentity_key_a example_server_def item_a_def)

lemma processImageRef_img_b:
  "snd (processImageRef (example_world registry_by_image) example_server ''img-b'') = item_b"
  using run_img_b
  by (simp add: processImageRef_def Let_def keyIdentity_img_b example_server_def item_b_def)

lemma request_body_unmarshal:
  "unmarshal (dec_object ProviderRequest_field) zero_ProviderRequest request_body =
     Inr \<lparr>preq_APIVersion = ''externaldata.gatekeeper.sh/v1beta1'', preq_Kind = ''ProviderRequest'',
          preq_Request = \<lparr>req_Keys = [key_a, ''img-b'']\<rparr>\<rparr>"
  by (simp add: request_body_def key_a_def json_eval dec_eval)

subsection \<open>Normalization and serialization\<close>

lemma spdx_no_purl:
  "extractAndNormalizeSPDX predicate = Inr u \<Longrightarrow> list_all (\<lambda>p. up_PURL p = []) (sbom_Packages u)"
  by (auto simp: extractAndNormalizeSPDX_def spdx_package_def Let_def list_all_iff split: sum.splits)

lemma extract_formats:
  "extractSBOMFromAttestation payload = Inr (Some u) \<Longrightarrow>
     (sbom_Format u = ''spdx'' \<and> list_all (\<lambda>p. up_PURL p = []) (sbom_Packages u))
     \<or> sbom_Format u = ''cyclonedx''"
  by (auto simp: extractSBOMFromAttestation_def extractStatement_def extractAndNormalizeSPDX_def
        extractAndNormalizeCycloneDX_def spdx_package_def Let_def list_all_iff
        split: sum.splits if_splits)

lemma purl_member: "has_member ''purl'' (UnifiedPackage_json p) = (up_PURL p \<noteq> [])"
  by (simp add: has_member_def UnifiedPackage_json_def)

lemma json_Marshal_not_empty: "json_Marshal sbom = Inr js \<Longrightarrow> js \<noteq> []"
  by (auto simp: json_Marshal_def UnifiedSBOM_json_def)

lemma json_Marshal_total: "json_Marshal sbom \<noteq> Inl err"
  by (simp add: json_Marshal_def)

subsection \<open>The items of a response\<close>

lemma processImageRef_item:
  "item_Key (snd (processImageRef w s key)) = key \<and> exactlyOne (snd (processImageRef w s key))"
  by (auto simp: processImageRef_def Let_def exactlyOne_def json_Marshal_def UnifiedSBOM_json_def
        split: sum.splits)

lemma processKeys_snd:
  "snd (processKeys w s keys) = map (\<lambda>key. snd (processImageRef w s key)) keys"
  by (induction keys) simp_all

lemma processed_keys:
  "map item_Key (map (\<lambda>key. snd (processImageRef w s key)) keys) = keys"
  by (induction keys) (simp_all add: processImageRef_item)

lemma processed_exactlyOne:
  "list_all exactlyOne (map (\<lambda>key. snd (processImageRef w s key)) keys)"
  by (induction keys) (simp_all add: processImageRef_item)

section \<open>Claims\<close>

text \<open>
  C1. When the first call to cosign, with the options as built, returns an error,
  \<^verbatim>\<open>VerifyAndExtractSBOMWithParams\<close> calls cosign exactly once more, for the same
  reference and with \<^verbatim>\<open>ExperimentalOCI11\<close> and \<^verbatim>\<open>NewBundleFormat\<close> set to false and
  nothing else changed; when that second call returns an error too, the key fails
  with the second error, wrapped as "failed to fetch/verify attestations: ...".
\<close>

theorem C1_legacy_retry:
  assumes prep:
      "snd (prepareVerification w v key certIdentity certOidcIssuer) = Inr (ref, checkOpts)"
    and modern: "cosign_VerifyImageAttestations w ref checkOpts = Inl modernErr"
  shows "verify_calls (fst (VerifyAndExtractSBOMWithParams w v key certIdentity certOidcIssuer))
           = [(ref, checkOpts),
              (ref, checkOpts\<lparr>ExperimentalOCI11 := False, NewBundleFormat := False\<rparr>)]
         \<and> (\<forall>legacyErr.
              cosign_VerifyImageAttestations w ref
                (checkOpts\<lparr>ExperimentalOCI11 := False, NewBundleFormat := False\<rparr>) = Inl legacyErr
              \<longrightarrow> snd (VerifyAndExtractSBOMWithParams w v key certIdentity certOidcIssuer)
                    = Inl (FetchVerifyFailed legacyErr)
                  \<and> error_text (FetchVerifyFailed legacyErr)
                    = ''failed to fetch/verify attestations: '' @ legacyErr)"
proof -
  have f: "fetchAttestations w ref checkOpts =
      ([Call_VerifyImageAttestations ref checkOpts,
        Call_VerifyImageAttestations ref
          (checkOpts\<lparr>ExperimentalOCI11 := False, NewBundleFormat := False\<rparr>)],
       cosign_VerifyImageAttestations w ref
         (checkOpts\<lparr>ExperimentalOCI11 := False, NewBundleFormat := False\<rparr>))"
    using modern by (simp add: fetchAttestations_def Let_def)
  show ?thesis
    using prep f
    by (auto simp: VerifyAndExtractSBOMWithParams_def Let_def verify_calls_append prepare_calls
          firstSBOM_verify_calls split: sum.splits option.splits)
qed

theorem C1_legacy_retry_witness:
  "verify_calls (fst (VerifyAndExtractSBOMWithParams (example_world registry_both_fail)
       example_verifier ''img'' [] []))
     = [(Reference ''img'', newCheckOpts example_verifier DefaultKeychain [] []),
        (Reference ''img'', (newCheckOpts example_verifier DefaultKeychain [] [])
           \<lparr>ExperimentalOCI11 := False, NewBundleFormat := False\<rparr>)]
   \<and> snd (VerifyAndExtractSBOMWithParams (example_world registry_both_fail)
       example_verifier ''img'' [] [])
     = Inl (FetchVerifyFailed ''no matching attestations'')
   \<and> error_text (FetchVerifyFailed ''no matching attestations'')
     = ''failed to fetch/verify attestations: no matching attestations''"
proof -
  have modern:
    "cosign_VerifyImageAttestations (example_world registry_both_fail) (Reference ''img'')
       (newCheckOpts example_verifier DefaultKeychain [] []) = Inl ''referrers API not supported''"
    by (simp add: world_eval newCheckOpts_def)
  have legacy:
    "cosign_VerifyImageAttestations (example_world registry_both_fail) (Reference ''img'')
       ((newCheckOpts example_verifier DefaultKeychain [] [])
          \<lparr>ExperimentalOCI11 := False, NewBundleFormat := False\<rparr>)
     = Inl ''no matching attestations''"
    by (simp add: world_eval newCheckOpts_def)
  show ?thesis
    using C1_legacy_retry [OF prep_img modern] legacy by simp
qed

text \<open>
  C2. The attestations that cosign returned are read in order. Those before the first
  one that yields an SBOM are passed over, whether their payload cannot be read, the
  extractor returns an error or it returns no SBOM; the SBOM of that first one is the
  result, and no attestation after it is read. When every attestation is passed over,
  the key fails with "no SBOM found in attestations".
\<close>

theorem C2_first_sbom_wins:
  assumes prep:
      "snd (prepareVerification w v key certIdentity certOidcIssuer) = Inr (ref, checkOpts)"
    and fetched: "snd (fetchAttestations w ref checkOpts) = Inr atts"
  shows "(atts = pre @ a # post \<and> list_all passedOver pre \<and> yieldsSBOM a sbom
            \<longrightarrow> snd (VerifyAndExtractSBOMWithParams w v key certIdentity certOidcIssuer) = Inr sbom
              \<and> payload_calls (fst (VerifyAndExtractSBOMWithParams w v key certIdentity certOidcIssuer))
                  = pre @ [a])
         \<and> (atts \<noteq> [] \<and> list_all passedOver atts
            \<longrightarrow> snd (VerifyAndExtractSBOMWithParams w v key certIdentity certOidcIssuer)
                  = Inl NoSBOMFound
              \<and> error_text NoSBOMFound = ''no SBOM found in attestations''
              \<and> payload_calls (fst (VerifyAndExtractSBOMWithParams w v key certIdentity certOidcIssuer))
                  = atts)"
proof (intro conjI impI)
  assume h: "atts = pre @ a # post \<and> list_all passedOver pre \<and> yieldsSBOM a sbom"
  then have fs: "firstSBOM atts = (map Call_Payload (pre @ [a]), Some sbom)"
    using firstSBOM_first by blast
  have ne: "atts \<noteq> []" using h by simp
  show "snd (VerifyAndExtractSBOMWithParams w v key certIdentity certOidcIssuer) = Inr sbom"
    using prep fetched fs ne by (simp add: VerifyAndExtractSBOMWithParams_def Let_def)
  show "payload_calls (fst (VerifyAndExtractSBOMWithParams w v key certIdentity certOidcIssuer))
          = pre @ [a]"
    using prep fetched fs ne
    by (simp add: VerifyAndExtractSBOMWithParams_def Let_def payload_calls_append prepare_calls
          fetch_payload_calls payload_calls_map)
next
  assume h: "atts \<noteq> [] \<and> list_all passedOver atts"
  then have fs: "firstSBOM atts = (map Call_Payload atts, None)"
    using firstSBOM_none by blast
  show "snd (VerifyAndExtractSBOMWithParams w v key certIdentity certOidcIssuer) = Inl NoSBOMFound"
    using prep fetched fs h by (simp add: VerifyAndExtractSBOMWithParams_def Let_def)
  show "error_text NoSBOMFound = ''no SBOM found in attestations''" by simp
  show "payload_calls (fst (VerifyAndExtractSBOMWithParams w v key certIdentity certOidcIssuer))
          = atts"
    using prep fetched fs h
    by (simp add: VerifyAndExtractSBOMWithParams_def Let_def payload_calls_append prepare_calls
          fetch_payload_calls payload_calls_map)
qed

theorem C2_first_sbom_wins_witness:
  "snd (VerifyAndExtractSBOMWithParams (example_world registry_mixed) example_verifier
         ''img'' [] []) = Inr sbom_a
   \<and> payload_calls (fst (VerifyAndExtractSBOMWithParams (example_world registry_mixed)
         example_verifier ''img'' [] [])) = take 4 attestations_mixed
   \<and> snd (VerifyAndExtractSBOMWithParams (example_world registry_no_sbom) example_verifier
         ''img'' [] []) = Inl NoSBOMFound
   \<and> payload_calls (fst (VerifyAndExtractSBOMWithParams (example_world registry_no_sbom)
         example_verifier ''img'' [] [])) = take 3 attestations_mixed"
proof -
  have f1: "snd (fetchAttestations (example_world registry_mixed) (Reference ''img'')
              (newCheckOpts example_verifier DefaultKeychain [] [])) = Inr attestations_mixed"
    by (simp add: fetchAttestations_def example_world_def registry_mixed_def)
  have f2: "snd (fetchAttestations (example_world registry_no_sbom) (Reference ''img'')
              (newCheckOpts example_verifier DefaultKeychain [] []))
            = Inr (take 3 attestations_mixed)"
    by (simp add: fetchAttestations_def example_world_def registry_no_sbom_def)
  have y: "yieldsSBOM (Attestation (Inr statement_spdx)) sbom_a"
    by (simp add: yieldsSBOM_def extract_statement_spdx)
  have split: "attestations_mixed =
      [Attestation (Inl ''layer not found''), Attestation (Inr ''not json''),
       Attestation (Inr statement_unknown)]
      @ Attestation (Inr statement_spdx) # [Attestation (Inr statement_cyclonedx)]"
    by (simp add: attestations_mixed_def)
  have p: "list_all passedOver [Attestation (Inl ''layer not found''),
       Attestation (Inr ''not json''), Attestation (Inr statement_unknown)]"
    by (simp add: passedOver_examples)
  have p3: "take 3 attestations_mixed \<noteq> [] \<and> list_all passedOver (take 3 attestations_mixed)"
    by (simp add: attestations_mixed_def passedOver_examples)
  from C2_first_sbom_wins [OF prep_img f1,
      of "[Attestation (Inl ''layer not found''), Attestation (Inr ''not json''),
           Attestation (Inr statement_unknown)]"
         "Attestation (Inr statement_spdx)" "[Attestation (Inr statement_cyclonedx)]" sbom_a]
    split p y
  have r1: "snd (VerifyAndExtractSBOMWithParams (example_world registry_mixed) example_verifier
         ''img'' [] []) = Inr sbom_a
     \<and> payload_calls (fst (VerifyAndExtractSBOMWithParams (example_world registry_mixed)
         example_verifier ''img'' [] []))
       = [Attestation (Inl ''layer not found''), Attestation (Inr ''not json''),
          Attestation (Inr statement_unknown)] @ [Attestation (Inr statement_spdx)]"
    by blast
  from C2_first_sbom_wins [OF prep_img f2] p3
  have r2: "snd (VerifyAndExtractSBOMWithParams (example_world registry_no_sbom) example_verifier
         ''img'' [] []) = Inl NoSBOMFound
     \<and> payload_calls (fst (VerifyAndExtractSBOMWithParams (example_world registry_no_sbom)
         example_verifier ''img'' [] [])) = take 3 attestations_mixed"
    by blast
  show ?thesis using r1 r2 by (simp add: attestations_mixed_def)
qed

text \<open>
  C3. When the call to cosign whose result stands (the first, or the second after an
  error of the first) returns no error and no attestation, the key fails with
  "no attestations found": no SBOM is returned and no attestation is read.
\<close>

theorem C3_no_attestations:
  assumes prep:
      "snd (prepareVerification w v key certIdentity certOidcIssuer) = Inr (ref, checkOpts)"
    and fetched: "snd (fetchAttestations w ref checkOpts) = Inr []"
  shows "snd (VerifyAndExtractSBOMWithParams w v key certIdentity certOidcIssuer)
           = Inl NoAttestationsFound
         \<and> error_text NoAttestationsFound = ''no attestations found''
         \<and> payload_calls (fst (VerifyAndExtractSBOMWithParams w v key certIdentity certOidcIssuer))
             = []"
  using prep fetched
  by (simp add: VerifyAndExtractSBOMWithParams_def Let_def payload_calls_append prepare_calls
        fetch_payload_calls)

theorem C3_no_attestations_witness:
  "snd (VerifyAndExtractSBOMWithParams (example_world registry_legacy_empty)
       example_verifier ''img'' [] []) = Inl NoAttestationsFound"
proof -
  have fetched:
    "snd (fetchAttestations (example_world registry_legacy_empty) (Reference ''img'')
       (newCheckOpts example_verifier DefaultKeychain [] [])) = Inr []"
    by (simp add: fetchAttestations_def world_eval newCheckOpts_def)
  show ?thesis
    using C3_no_attestations [OF prep_img fetched] by simp
qed

text \<open>
  C4. For a predicate that decodes as an SPDX document, \<^verbatim>\<open>extractAndNormalizeSPDX\<close>
  returns the format "spdx" and one package for each package of the document, in
  the order of the document and with repetitions kept; the license of a package is
  \<^verbatim>\<open>licenseConcluded\<close> when that is not empty, else \<^verbatim>\<open>licenseDeclared\<close> when that is
  not empty, else the empty string.
\<close>

theorem C4_spdx_packages:
  assumes "unmarshal_raw (dec_object SPDXDocument_field) zero_SPDXDocument predicate = Inr doc"
  shows "\<exists>u. extractAndNormalizeSPDX predicate = Inr u
           \<and> sbom_Format u = ''spdx''
           \<and> sbom_Packages u =
               map (\<lambda>p. \<lparr>up_Name = pkg_Name p, up_Version = pkg_VersionInfo p,
                          up_License =
                            (if pkg_LicenseConcluded p \<noteq> [] then pkg_LicenseConcluded p
                             else if pkg_LicenseDeclared p \<noteq> [] then pkg_LicenseDeclared p
                             else []),
                          up_PURL = []\<rparr>)
                   (doc_Packages doc)"
  using assms by (simp add: extractAndNormalizeSPDX_def spdx_package_def Let_def)

theorem C4_spdx_packages_witness:
  "\<exists>u. extractAndNormalizeSPDX (json_parse spdx_document) = Inr u
      \<and> map up_Name (sbom_Packages u) = [''pkg1'', ''pkg2'', ''pkg1'', ''pkg3'']
      \<and> map up_License (sbom_Packages u) = [''BSD-3-Clause'', ''Apache-2.0'', ''BSD-3-Clause'', []]"
  using C4_spdx_packages [OF spdx_document_unmarshal]
  by (auto simp: spdx_document_decoded_def zero_SPDXDocument_def zero_SPDXPackage_def)

text \<open>
  C5. For a predicate that decodes as a CycloneDX BOM, \<^verbatim>\<open>extractAndNormalizeCycloneDX\<close>
  returns the format "cyclonedx" and one package for each component, in order; the
  license of a package comes from the first entry of the component's license list
  alone: its \<^verbatim>\<open>id\<close> when that is not empty, else its \<^verbatim>\<open>name\<close> when that is not
  empty, else the empty string, which is also the license of a component with no
  license entry.
\<close>

theorem C5_cyclonedx_packages:
  assumes "unmarshal_raw (dec_object CycloneDXBOM_field) zero_CycloneDXBOM predicate = Inr bom"
  shows "\<exists>u. extractAndNormalizeCycloneDX predicate = Inr u
           \<and> sbom_Format u = ''cyclonedx''
           \<and> sbom_Packages u =
               map (\<lambda>c. \<lparr>up_Name = comp_Name c, up_Version = comp_Version c,
                          up_License =
                            (if comp_Licenses c = [] then []
                             else if li_ID (lic_License (comp_Licenses c ! 0)) \<noteq> []
                             then li_ID (lic_License (comp_Licenses c ! 0))
                             else if li_Name (lic_License (comp_Licenses c ! 0)) \<noteq> []
                             then li_Name (lic_License (comp_Licenses c ! 0))
                             else []),
                          up_PURL = comp_Purl c\<rparr>)
                   (bom_Components bom)"
  using assms
  by (auto simp: extractAndNormalizeCycloneDX_def cyclonedx_package_def Let_def split: list.splits)

theorem C5_cyclonedx_packages_witness:
  "\<exists>u. extractAndNormalizeCycloneDX (json_parse cyclonedx_bom) = Inr u
      \<and> map up_Name (sbom_Packages u) = [''pkg-with-id'', ''pkg-with-name'', ''pkg-no-license'']
      \<and> map up_License (sbom_Packages u) = [''MIT'', ''Custom License'', []]"
  using C5_cyclonedx_packages [OF cyclonedx_bom_unmarshal]
  by (auto simp: cyclonedx_bom_decoded_def zero_CycloneDXBOM_def zero_CycloneDXComponent_def)

text \<open>
  C6, as stated: a payload that parses as an in-toto statement whose predicate type
  is not one of the six of the switch makes the extractor return \<^verbatim>\<open>nil, nil\<close>. It
  fails for a statement that also has a member \<^verbatim>\<open>payload\<close>: the DSSE check comes
  first, reads the statement as an envelope, and returns an error when that member is
  not base64.
\<close>

theorem C6_counterexample:
  "unmarshal (dec_object Statement_field) zero_Statement statement_unknown_with_payload
     = Inr \<lparr>st_Type = ''https://in-toto.io/Statement/v0.1'',
            st_PredicateType = ''https://example.com/unknown'',
            st_Predicate = Some (JObj [])\<rparr>
   \<and> \<not> List.member recognizedPredicateTypes ''https://example.com/unknown''
   \<and> extractSBOMFromAttestation statement_unknown_with_payload = Inl DecodeDSSEFailed"
  by (simp add: payload_eval json_eval dec_eval b64_eval extract_eval recognizedPredicateTypes_def)

text \<open>
  C6, amended: take the bytes that the DSSE check hands on, which are the payload
  itself unless it decodes as an envelope with a payload field that is not empty
  (\<open>unwrapEnvelope_bare\<close>), and then the base64 decoding of that field
  (\<open>unwrapEnvelope_envelope\<close>). When these bytes parse as a statement whose predicate
  type is not one of the six, the extractor returns \<^verbatim>\<open>nil, nil\<close>; when they do not
  parse as a statement, it returns the parse error.
\<close>

theorem C6_unrecognized_type:
  assumes "unwrapEnvelope payload = Inr bytes"
  shows "(\<forall>statement.
            unmarshal (dec_object Statement_field) zero_Statement bytes = Inr statement
            \<and> \<not> List.member recognizedPredicateTypes (st_PredicateType statement)
            \<longrightarrow> extractSBOMFromAttestation payload = Inr None)
         \<and> (\<forall>err.
            unmarshal (dec_object Statement_field) zero_Statement bytes = Inl err
            \<longrightarrow> extractSBOMFromAttestation payload = Inl (ParseStatementFailed err))"
  using assms
  by (auto simp: extractSBOMFromAttestation_def extractStatement_def recognizedPredicateTypes_def)

theorem C6_unrecognized_type_witness:
  "extractSBOMFromAttestation statement_unknown = Inr None
   \<and> extractSBOMFromAttestation ''not json'' = Inl (ParseStatementFailed SyntaxError)"
proof -
  have u1: "unwrapEnvelope statement_unknown = Inr statement_unknown"
    by (simp add: payload_eval json_eval dec_eval unwrapEnvelope_def)
  have s1: "unmarshal (dec_object Statement_field) zero_Statement statement_unknown =
      Inr \<lparr>st_Type = ''https://in-toto.io/Statement/v0.1'',
           st_PredicateType = ''https://example.com/unknown'',
           st_Predicate = Some (JObj [])\<rparr>"
    by (simp add: payload_eval json_eval dec_eval)
  have n1: "\<not> List.member recognizedPredicateTypes ''https://example.com/unknown''"
    by (simp add: recognizedPredicateTypes_def)
  have u2: "unwrapEnvelope ''not json'' = Inr ''not json''"
    by (simp add: json_eval dec_eval unwrapEnvelope_def)
  have s2: "unmarshal (dec_object Statement_field) zero_Statement ''not json'' = Inl SyntaxError"
    by (simp add: json_eval dec_eval)
  show ?thesis
    using C6_unrecognized_type [OF u1] C6_unrecognized_type [OF u2] s1 n1 s2 by simp
qed

text \<open>
  C7. The item that \<^verbatim>\<open>processImageRef\<close> returns for a key carries that key and has
  exactly one of value and error not empty: an error and no value when verification
  or marshalling fails, the marshalled SBOM and no error otherwise. The response to
  a request that parses holds the items of its keys, one for each key and in order.
\<close>

theorem C7_one_of_value_and_error:
  "item_Key (snd (processImageRef w s key)) = key
   \<and> exactlyOne (snd (processImageRef w s key))
   \<and> (case snd (VerifyAndExtractSBOMWithParams w (verifier s) key
                  (fst (keyIdentity key)) (snd (keyIdentity key))) of
        Inl err \<Rightarrow>
          item_Value (snd (processImageRef w s key)) = []
          \<and> item_Error (snd (processImageRef w s key)) \<noteq> []
      | Inr sbom \<Rightarrow>
          (case json_Marshal sbom of
             Inl err \<Rightarrow>
               item_Value (snd (processImageRef w s key)) = []
               \<and> item_Error (snd (processImageRef w s key)) \<noteq> []
           | Inr sbomJSON \<Rightarrow>
               item_Value (snd (processImageRef w s key)) = sbomJSON
               \<and> sbomJSON \<noteq> []
               \<and> item_Error (snd (processImageRef w s key)) = []))
   \<and> (\<forall>body providerReq.
        http_Method r = ''POST'' \<and> http_Body r = Inr body
        \<and> unmarshal (dec_object ProviderRequest_field) zero_ProviderRequest body = Inr providerReq
        \<longrightarrow> (\<exists>response.
               snd (handleVerify w s r) = HTTPJSON response
               \<and> resp_Items (presp_Response response)
                   = map (\<lambda>key. snd (processImageRef w s key)) (req_Keys (preq_Request providerReq))
               \<and> map item_Key (resp_Items (presp_Response response))
                   = req_Keys (preq_Request providerReq)
               \<and> list_all exactlyOne (resp_Items (presp_Response response))))"
proof (intro conjI)
  show "item_Key (snd (processImageRef w s key)) = key"
    by (simp add: processImageRef_item)
  show "exactlyOne (snd (processImageRef w s key))"
    by (simp add: processImageRef_item)
  show "case snd (VerifyAndExtractSBOMWithParams w (verifier s) key
                  (fst (keyIdentity key)) (snd (keyIdentity key))) of
        Inl err \<Rightarrow>
          item_Value (snd (processImageRef w s key)) = []
          \<and> item_Error (snd (processImageRef w s key)) \<noteq> []
      | Inr sbom \<Rightarrow>
          (case json_Marshal sbom of
             Inl err \<Rightarrow>
               item_Value (snd (processImageRef w s key)) = []
               \<and> item_Error (snd (processImageRef w s key)) \<noteq> []
           | Inr sbomJSON \<Rightarrow>
               item_Value (snd (processImageRef w s key)) = sbomJSON
               \<and> sbomJSON \<noteq> []
               \<and> item_Error (snd (processImageRef w s key)) = [])"
    by (auto simp: processImageRef_def Let_def json_Marshal_def UnifiedSBOM_json_def
          split: sum.splits)
  show "\<forall>body providerReq.
        http_Method r = ''POST'' \<and> http_Body r = Inr body
        \<and> unmarshal (dec_object ProviderRequest_field) zero_ProviderRequest body = Inr providerReq
        \<longrightarrow> (\<exists>response.
               snd (handleVerify w s r) = HTTPJSON response
               \<and> resp_Items (presp_Response response)
                   = map (\<lambda>key. snd (processImageRef w s key)) (req_Keys (preq_Request providerReq))
               \<and> map item_Key (resp_Items (presp_Response response))
                   = req_Keys (preq_Request providerReq)
               \<and> list_all exactlyOne (resp_Items (presp_Response response)))"
    using processed_keys [of w s] processed_exactlyOne [of w s]
    by (simp add: handleVerify_def Let_def processKeys_snd)
qed

theorem C7_one_of_value_and_error_witness:
  "snd (processImageRef (example_world registry_by_image) example_server key_a) = item_a
   \<and> exactlyOne item_a
   \<and> snd (processImageRef (example_world registry_by_image) example_server ''img-b'') = item_b
   \<and> exactlyOne item_b
   \<and> (\<exists>response.
        snd (handleVerify (example_world registry_by_image) example_server
               \<lparr>http_Method = ''POST'', http_Body = Inr request_body\<rparr>) = HTTPJSON response
        \<and> resp_Items (presp_Response response) = [item_a, item_b])"
proof -
  have a: "exactlyOne item_a"
    using C7_one_of_value_and_error
      [of "example_world registry_by_image" example_server key_a undefined]
    by (simp add: processImageRef_key_a)
  have b: "exactlyOne item_b"
    using C7_one_of_value_and_error
      [of "example_world registry_by_image" example_server "''img-b''" undefined]
    by (simp add: processImageRef_img_b)
  have r: "\<exists>response.
        snd (handleVerify (example_world registry_by_image) example_server
               \<lparr>http_Method = ''POST'', http_Body = Inr request_body\<rparr>) = HTTPJSON response
        \<and> resp_Items (presp_Response response) = [item_a, item_b]"
    using C7_one_of_value_and_error
      [of "example_world registry_by_image" example_server key_a
          "\<lparr>http_Method = ''POST'', http_Body = Inr request_body\<rparr>"]
      request_body_unmarshal
    by (auto simp: processImageRef_key_a processImageRef_img_b)
  show ?thesis
    using a b r by (simp add: processImageRef_key_a processImageRef_img_b)
qed

text \<open>
  C8. The claim is that a malformed second piece of the key leaves the secret names
  empty, so that the verifier's own keychain is used, as the warning that the code
  logs says ("using default keychain"). The code does not clear \<^verbatim>\<open>secretNames\<close>
  after the error: for the key \<^verbatim>\<open>img|["a",1]\<close> \<^verbatim>\<open>json.Unmarshal\<close> reports the number
  and stores the two names \<^verbatim>\<open>a\<close> and the empty string, the cluster is asked for both,
  and the check options carry a keychain built from the secret \<^verbatim>\<open>a\<close>.
\<close>

theorem C8_type_error_keeps_names:
  "parseSecretNames (SplitN (CHR ''|'') 4 key_partial)
     = ([LogSecretsParseWarning UnmarshalTypeError], [''a'', []])
   \<and> prepareVerification (example_world registry_both_fail) example_verifier key_partial [] []
     = ([LogSecretsParseWarning UnmarshalTypeError, LogVerifying ''img'' 2 [] [],
         LogSecretWarning [] ''not found''],
        Inr (Reference ''img'',
             newCheckOpts example_verifier
               (MultiKeychain [PullSecretsKeychain [Secret ''a'' ''auth''], DefaultKeychain])
               [] []))"
  by (simp add: key_partial_def prepare_eval world_eval json_eval)

theorem C8_type_error_keeps_names_witness:
  "length (snd (parseSecretNames (SplitN (CHR ''|'') 4 key_partial))) = 2
   \<and> (\<exists>ref checkOpts.
        snd (prepareVerification (example_world registry_both_fail) example_verifier
               key_partial [] []) = Inr (ref, checkOpts)
        \<and> RegistryClientOpts checkOpts \<noteq> keychain example_verifier)"
  using C8_type_error_keeps_names
  by (simp add: newCheckOpts_def example_verifier_def)

text \<open>
  C9, as stated: a statement and the same statement in a DSSE envelope give the same
  result. It fails for a statement that also has a member \<^verbatim>\<open>payload\<close>: in the
  envelope it is unwrapped once and read as a statement, bare it is itself read as an
  envelope.
\<close>

theorem C9_counterexample:
  "unmarshal (dec_object Envelope_field) zero_Envelope envelope_spdx_with_payload
     = Inr \<lparr>dsse_Payload = statement_spdx_with_payload_base64,
            dsse_PayloadType = ''application/vnd.in-toto+json'', dsse_Signatures = []\<rparr>
   \<and> base64_DecodeString statement_spdx_with_payload_base64 = Some statement_spdx_with_payload
   \<and> extractSBOMFromAttestation envelope_spdx_with_payload = Inr (Some sbom_a)
   \<and> extractSBOMFromAttestation statement_spdx_with_payload = Inl DecodeDSSEFailed"
  by (simp add: payload_eval json_eval dec_eval b64_eval extract_eval)

text \<open>
  C9, amended: for a statement that the DSSE check does not itself read as an envelope
  (it does not decode into the envelope struct with a payload field that is not
  empty), the extractor returns the same for the statement and for an envelope whose
  payload field is the base64 encoding of the statement.
\<close>

theorem C9_envelope_round_trip:
  assumes "unmarshal (dec_object Envelope_field) zero_Envelope wrapped = Inr envelope"
    and "dsse_Payload envelope \<noteq> []"
    and "base64_DecodeString (dsse_Payload envelope) = Some statement"
    and "\<not> readAsEnvelope statement"
  shows "extractSBOMFromAttestation wrapped = extractSBOMFromAttestation statement"
  using assms
  by (auto simp: extractSBOMFromAttestation_def unwrapEnvelope_def readAsEnvelope_def
        split: sum.splits)

theorem C9_envelope_round_trip_witness:
  "extractSBOMFromAttestation envelope_spdx = extractSBOMFromAttestation statement_spdx
   \<and> extractSBOMFromAttestation statement_spdx = Inr (Some sbom_a)"
proof -
  have e: "unmarshal (dec_object Envelope_field) zero_Envelope envelope_spdx =
      Inr \<lparr>dsse_Payload = statement_spdx_base64,
           dsse_PayloadType = ''application/vnd.in-toto+json'', dsse_Signatures = []\<rparr>"
    by (simp add: payload_eval json_eval dec_eval)
  have n: "statement_spdx_base64 \<noteq> []"
    by (simp add: statement_spdx_base64_def)
  have d: "base64_DecodeString statement_spdx_base64 = Some statement_spdx"
    by (simp add: payload_eval b64_eval)
  have u: "\<not> readAsEnvelope statement_spdx"
    by (simp add: payload_eval json_eval dec_eval readAsEnvelope_def)
  show ?thesis
    using C9_envelope_round_trip [OF e _ _ u] n d extract_statement_spdx by simp
qed

text \<open>
  C10. Every package that \<^verbatim>\<open>extractAndNormalizeSPDX\<close> returns has an empty purl,
  whatever external references the SPDX package has; \<^verbatim>\<open>extractAndNormalizeCycloneDX\<close>
  copies the purl of each component. \<^verbatim>\<open>json.Marshal\<close> writes the document
  \<open>UnifiedSBOM_json\<close>, which leaves the member \<^verbatim>\<open>purl\<close> out when it is empty, so a
  package of an extracted SBOM is written with a \<^verbatim>\<open>purl\<close> only when the format is
  "cyclonedx".
\<close>

theorem C10_purl_only_cyclonedx:
  "(extractAndNormalizeSPDX predicate = Inr u
      \<longrightarrow> list_all (\<lambda>p. up_PURL p = []) (sbom_Packages u))
   \<and> (extractAndNormalizeCycloneDX predicate' = Inr u'
        \<and> unmarshal_raw (dec_object CycloneDXBOM_field) zero_CycloneDXBOM predicate' = Inr bom
      \<longrightarrow> map up_PURL (sbom_Packages u') = map comp_Purl (bom_Components bom))
   \<and> (extractSBOMFromAttestation payload = Inr (Some sbom)
        \<and> list_ex (\<lambda>p. has_member ''purl'' (UnifiedPackage_json p)) (sbom_Packages sbom)
      \<longrightarrow> sbom_Format sbom = ''cyclonedx'')
   \<and> json_Marshal sbom = Inr (json_encode (UnifiedSBOM_json sbom))"
proof (intro conjI impI)
  assume "extractAndNormalizeSPDX predicate = Inr u"
  then show "list_all (\<lambda>p. up_PURL p = []) (sbom_Packages u)" by (rule spdx_no_purl)
next
  assume "extractAndNormalizeCycloneDX predicate' = Inr u'
        \<and> unmarshal_raw (dec_object CycloneDXBOM_field) zero_CycloneDXBOM predicate' = Inr bom"
  then show "map up_PURL (sbom_Packages u') = map comp_Purl (bom_Components bom)"
    by (auto simp: extractAndNormalizeCycloneDX_def cyclonedx_package_def Let_def)
next
  assume h: "extractSBOMFromAttestation payload = Inr (Some sbom)
        \<and> list_ex (\<lambda>p. has_member ''purl'' (UnifiedPackage_json p)) (sbom_Packages sbom)"
  then show "sbom_Format sbom = ''cyclonedx''"
    using extract_formats [of payload sbom]
    by (auto simp: purl_member list_all_iff list_ex_iff)
next
  show "json_Marshal sbom = Inr (json_encode (UnifiedSBOM_json sbom))"
    by (simp add: json_Marshal_def)
qed

theorem C10_purl_only_cyclonedx_witness:
  "list_all (\<lambda>p. up_PURL p = []) (sbom_Packages spdx_document_normalized)
   \<and> list_ex (\<lambda>p. has_member ''purl'' (UnifiedPackage_json p)) (sbom_Packages sbom_express)
   \<and> sbom_Format sbom_express = ''cyclonedx''"
proof -
  have m: "list_ex (\<lambda>p. has_member ''purl'' (UnifiedPackage_json p)) (sbom_Packages sbom_express)"
    by (simp add: sbom_express_def has_member_def UnifiedPackage_json_def)
  show ?thesis
    using C10_purl_only_cyclonedx [of "json_parse spdx_document" spdx_document_normalized
        None undefined undefined statement_cyclonedx sbom_express]
      spdx_document_normalize extract_statement_cyclonedx m
    by simp
qed

end
